theory Spec2Isabelle
  imports
    Main
    "HOL-Library.Char_ord"
    "HOL-Library.Code_Target_Numeral"
    "HOL-Library.List_Lexorder"
    "HOL-Library.Multiset"
    "HOL-Library.Word"
begin

unbundle bit_operations_syntax

section \<open>JavaScript values and primitives used by the recorder\<close>

text \<open>
  Strings are \<^typ>\<open>string\<close>: the model covers ASCII text, which is what HTTP methods,
  header names and the configured patterns are. The order on strings is the lexicographic
  order on character codes, which is how JavaScript compares strings (by code unit).

  A plain object (\<open>Record<string, T>\<close>) is an association list in the order of
  \<open>Object.entries\<close>: its keys are pairwise distinct. Assigning \<open>obj[key] = v\<close> replaces
  the value of an existing key in place and appends a new key at the end. Keys that are
  array indices (which JavaScript lists first) and the names of \<open>Object.prototype\<close> are
  outside the model.
\<close>

type_synonym 'a obj = "(string \<times> 'a) list"

fun obj_set :: "'a obj \<Rightarrow> string \<Rightarrow> 'a \<Rightarrow> 'a obj" where
  "obj_set [] k v = [(k, v)]"
| "obj_set ((k', v') # kvs) k v =
     (if k' = k then (k, v) # kvs else (k', v') # obj_set kvs k v)"

definition obj_get :: "'a obj \<Rightarrow> string \<Rightarrow> 'a option" where
  "obj_get kvs k = map_of kvs k"

definition obj_keys :: "'a obj \<Rightarrow> string list" where
  "obj_keys kvs = map fst kvs"

text \<open>JSON-like data (\<open>unknown\<close> in the source): bodies, placeholder data and value maps.
  Numbers are kept as integers; none of the functions below computes with them.\<close>

datatype json =
    JNull
  | JBool bool
  | JNum int
  | JStr string
  | JArr "json list"
  | JObj "(string \<times> json) list"

definition startsWith :: "string \<Rightarrow> string \<Rightarrow> bool" where
  "startsWith s p = (take (length p) s = p)"

definition endsWith :: "string \<Rightarrow> string \<Rightarrow> bool" where
  "endsWith s p = (length p \<le> length s \<and> drop (length s - length p) s = p)"

definition is_upper :: "char \<Rightarrow> bool" where
  "is_upper c = (65 \<le> (of_char c :: nat) \<and> (of_char c :: nat) \<le> 90)"

definition is_lower :: "char \<Rightarrow> bool" where
  "is_lower c = (97 \<le> (of_char c :: nat) \<and> (of_char c :: nat) \<le> 122)"

definition is_digit :: "char \<Rightarrow> bool" where
  "is_digit c = (48 \<le> (of_char c :: nat) \<and> (of_char c :: nat) \<le> 57)"

definition lower_char :: "char \<Rightarrow> char" where
  "lower_char c = (if is_upper c then char_of ((of_char c :: nat) + 32) else c)"

definition upper_char :: "char \<Rightarrow> char" where
  "upper_char c = (if is_lower c then char_of ((of_char c :: nat) - 32) else c)"

definition toLowerCase :: "string \<Rightarrow> string" where
  "toLowerCase s = map lower_char s"

definition toUpperCase :: "string \<Rightarrow> string" where
  "toUpperCase s = map upper_char s"

text \<open>\<open>parts.join(sep)\<close>.\<close>

fun join :: "string \<Rightarrow> string list \<Rightarrow> string" where
  "join sep [] = []"
| "join sep [x] = x"
| "join sep (x # y # ys) = x @ sep @ join sep (y # ys)"

text \<open>\<open>s.split(c)\<close> for a one-character separator: never empty, \<open>''.split(c) = ['']\<close>.\<close>

fun split_on :: "char \<Rightarrow> string \<Rightarrow> string list" where
  "split_on c [] = [[]]"
| "split_on c (x # xs) =
     (if x = c then [] # split_on c xs
      else (case split_on c xs of
              [] \<Rightarrow> [[x]]
            | p # ps \<Rightarrow> (x # p) # ps))"

text \<open>\<open>Array.prototype.sort()\<close> without a comparator compares the elements' string
  conversions by code unit and is stable. An entry \<open>[k, v]\<close> converts to \<open>k,v\<close>.\<close>

definition entry_toString :: "string \<times> string \<Rightarrow> string" where
  "entry_toString e = fst e @ '','' @ snd e"

definition sort_entries :: "(string \<times> string) list \<Rightarrow> (string \<times> string) list" where
  "sort_entries es = sort_key entry_toString es"

definition sort_strings :: "string list \<Rightarrow> string list" where
  "sort_strings ks = sort_key (\<lambda>k. k) ks"

section \<open>The platform: URL, URLSearchParams and RegExp\<close>

text \<open>
  The \<open>URL\<close>, \<open>URLSearchParams\<close> and \<open>RegExp\<close> classes belong to the JavaScript
  runtime, not to the repository. The functions of the repository take them as a parameter,
  so that what is proved for every platform holds for the real one. A URL record has the
  components of the URL Standard that the code reads.
\<close>

text \<open>The regular expressions of \<open>piiPatterns\<close> (mock.config.ts) are literals of the
  source: for e-mail addresses, phone numbers, card numbers, social security numbers and
  JSON web tokens, all with the \<open>g\<close> flag.\<close>

datatype pii_regex = EmailRx | PhoneRx | CardRx | SsnRx | JwtRx

record URL =
  scheme :: string
  username :: string
  password :: string
  host :: string
  port :: "string option"
  path :: string
  query :: "string option"
  fragment :: "string option"

record platform =
  URL_new :: "string \<Rightarrow> string \<Rightarrow> URL option"
    \<comment> \<open>\<open>new URL(url, base)\<close>; \<open>None\<close> when the constructor throws \<open>TypeError\<close>\<close>
  urlencoded_parse :: "string \<Rightarrow> (string \<times> string) list"
    \<comment> \<open>the \<open>application/x-www-form-urlencoded\<close> parser, on a query without its \<open>?\<close>\<close>
  urlencoded_serialize :: "(string \<times> string) list \<Rightarrow> string"
    \<comment> \<open>\<open>URLSearchParams.prototype.toString\<close>\<close>
  RegExp_test :: "string \<Rightarrow> string \<Rightarrow> bool option"
    \<comment> \<open>\<open>new RegExp(pattern, 'i').test(s)\<close>; \<open>None\<close> when the pattern is a \<open>SyntaxError\<close>\<close>
  pii_replace :: "pii_regex \<Rightarrow> string \<Rightarrow> string \<Rightarrow> string"
    \<comment> \<open>\<open>result.replace(pattern, replacement)\<close> for a pattern of \<open>piiPatterns\<close>\<close>

text \<open>The getters of a \<open>URL\<close> object (URL Standard, section 6.1). The origin is the one of
  a URL whose scheme is \<open>http\<close> or \<open>https\<close>, the only schemes the code parses for.\<close>

definition host_port :: "URL \<Rightarrow> string" where
  "host_port u = host u @ (case port u of None \<Rightarrow> [] | Some p \<Rightarrow> '':'' @ p)"

definition origin :: "URL \<Rightarrow> string" where
  "origin u = scheme u @ ''://'' @ host_port u"

definition pathname :: "URL \<Rightarrow> string" where
  "pathname u = path u"

definition search :: "URL \<Rightarrow> string" where
  "search u = (case query u of None \<Rightarrow> [] | Some q \<Rightarrow> if q = [] then [] else ''?'' @ q)"

definition userinfo :: "URL \<Rightarrow> string" where
  "userinfo u =
     (if username u = [] \<and> password u = [] then []
      else username u @ (if password u = [] then [] else '':'' @ password u) @ ''@'')"

definition href :: "URL \<Rightarrow> string" where
  "href u =
     scheme u @ ''://'' @ userinfo u @ host_port u @ path u
       @ (case query u of None \<Rightarrow> [] | Some q \<Rightarrow> ''?'' @ q)
       @ (case fragment u of None \<Rightarrow> [] | Some f \<Rightarrow> ''#'' @ f)"

text \<open>\<open>new URLSearchParams(init)\<close> for a string: one leading \<open>?\<close> is dropped.\<close>

definition URLSearchParams_new :: "platform \<Rightarrow> string \<Rightarrow> (string \<times> string) list" where
  "URLSearchParams_new pf init =
     urlencoded_parse pf (case init of CHR ''?'' # r \<Rightarrow> r | _ \<Rightarrow> init)"

text \<open>\<open>urlObj.searchParams\<close>: the parsed query of the URL.\<close>

definition searchParams :: "platform \<Rightarrow> URL \<Rightarrow> (string \<times> string) list" where
  "searchParams pf u = urlencoded_parse pf (case query u of None \<Rightarrow> [] | Some q \<Rightarrow> q)"

section \<open>Configuration (mock.config.ts)\<close>

datatype log_level = Debug | Info | Warn | Error

record MockConfig =
  mockDir :: string
  includePatterns :: "string list"
  excludePatterns :: "string list"
  sanitizeHeaders_list :: "string list"
  autoFallback :: bool
  logLevel :: log_level
  simulateLatency :: bool
  dynamicPlaceholder :: string

text \<open>The first exclude pattern, \<open>\.(js|css|png|jpg|jpeg|gif|svg|woff|woff2|ttf|ico)$\<close>;
  it starts with a backslash.\<close>

definition static_asset_pattern :: string where
  "static_asset_pattern = CHR 0x5C # ''.(js|css|png|jpg|jpeg|gif|svg|woff|woff2|ttf|ico)$''"

definition defaultConfig :: MockConfig where
  "defaultConfig = \<lparr>
     mockDir = ''cypress/mocks'',
     includePatterns = [''^/api/'', ''^https?://.*/(api|graphql|v[0-9]+)/''],
     excludePatterns =
       [static_asset_pattern, ''^/static/'', ''^/assets/'', ''^/_next/'', ''^/__cypress/''],
     sanitizeHeaders_list =
       [''authorization'', ''cookie'', ''set-cookie'', ''x-auth-token'', ''x-api-key'',
        ''x-access-token'', ''x-csrf-token'', ''x-xsrf-token''],
     autoFallback = True,
     logLevel = Info,
     simulateLatency = False,
     dynamicPlaceholder = ''{{DYNAMIC}}'' \<rparr>"

text \<open>The Cypress environment variables \<open>getConfig\<close> reads; \<open>None\<close> is an unset variable.\<close>

record cypress_env =
  MOCK_DIR :: "string option"
  AUTO_FALLBACK :: "bool option"
  LOG_LEVEL :: "log_level option"

definition getConfig :: "cypress_env \<Rightarrow> MockConfig" where
  "getConfig env =
     (let c1 = (case MOCK_DIR env of
                  None \<Rightarrow> defaultConfig
                | Some d \<Rightarrow> if d = [] then defaultConfig else defaultConfig\<lparr>mockDir := d\<rparr>);
          c2 = (case AUTO_FALLBACK env of None \<Rightarrow> c1 | Some b \<Rightarrow> c1\<lparr>autoFallback := b\<rparr>);
          c3 = (case LOG_LEVEL env of None \<Rightarrow> c2 | Some l \<Rightarrow> c2\<lparr>logLevel := l\<rparr>)
      in c3)"

section \<open>Request matcher (matcher.ts)\<close>

text \<open>The interfaces of the source share field names (\<open>method\<close>, \<open>url\<close>, \<open>pathname\<close>,
  \<open>queryParams\<close>); the fields of a record carry a prefix where they would clash.\<close>

record RequestSignature =
  sig_method :: string
  sig_url :: string
  normalizedUrl :: string
  queryParams :: "string obj"
  sig_pathname :: string

record MockMetadata =
  mm_method :: string
  mm_url :: string
  mm_pathname :: string
  mm_queryParams :: "string obj option"

text \<open>The base every function picks before parsing.\<close>

definition baseUrl :: "string \<Rightarrow> string" where
  "baseUrl url = (if startsWith url ''http'' then [] else ''http://localhost'')"

text \<open>\<open>normalizeUrl\<close>: the whole body is inside \<open>try\<close>, and \<open>catch\<close> returns the input.\<close>

definition normalizeUrl :: "platform \<Rightarrow> string \<Rightarrow> string" where
  "normalizeUrl pf url =
     (case URL_new pf url (baseUrl url) of
        None \<Rightarrow> url
      | Some urlObj \<Rightarrow>
          (let params = URLSearchParams_new pf (search urlObj);
               sortedParams = sort_entries params;
               normalizedSearch = urlencoded_serialize pf sortedParams;
               search' = (if normalizedSearch \<noteq> [] then ''?'' @ normalizedSearch else [])
           in if startsWith url ''http''
              then origin urlObj @ pathname urlObj @ search'
              else pathname urlObj @ search'))"

definition extractPathname :: "platform \<Rightarrow> string \<Rightarrow> string" where
  "extractPathname pf url =
     (case URL_new pf url (baseUrl url) of
        None \<Rightarrow> hd (split_on CHR ''?'' url)
      | Some urlObj \<Rightarrow> pathname urlObj)"

definition extractQueryParams :: "platform \<Rightarrow> string \<Rightarrow> string obj" where
  "extractQueryParams pf url =
     (case URL_new pf url (baseUrl url) of
        None \<Rightarrow> []
      | Some urlObj \<Rightarrow>
          foldl (\<lambda>params (key, value). obj_set params key value) [] (searchParams pf urlObj))"

definition createRequestSignature :: "platform \<Rightarrow> string \<Rightarrow> string \<Rightarrow> RequestSignature" where
  "createRequestSignature pf method url = \<lparr>
     sig_method = toUpperCase method,
     sig_url = url,
     normalizedUrl = normalizeUrl pf url,
     queryParams = extractQueryParams pf url,
     sig_pathname = extractPathname pf url \<rparr>"

text \<open>\<open>simpleHash\<close>: \<open>hash << 5\<close> and \<open>hash & hash\<close> are 32-bit operations, so the
  accumulator is a 32-bit word; \<open>Math.abs\<close> is taken on its signed value, and the result
  is written in base 36 and cut to six characters.\<close>

definition digit36 :: "nat \<Rightarrow> char" where
  "digit36 d = (''0123456789abcdefghijklmnopqrstuvwxyz'' ! d)"

fun toString36 :: "nat \<Rightarrow> string" where
  "toString36 n =
     (if n < 36 then [digit36 n] else toString36 (n div 36) @ [digit36 (n mod 36)])"

definition hash_step :: "32 word \<Rightarrow> char \<Rightarrow> 32 word" where
  "hash_step h c = (push_bit 5 h - h) + of_nat (of_char c)"

definition simpleHash :: "string \<Rightarrow> string" where
  "simpleHash str = take 6 (toString36 (nat \<bar>sint (foldl hash_step 0 str)\<bar>))"

definition is_filename_char :: "char \<Rightarrow> bool" where
  "is_filename_char c =
     (is_lower c \<or> is_upper c \<or> is_digit c \<or> c = CHR ''_'' \<or> c = CHR ''-'')"

definition cleanPath_of :: "string \<Rightarrow> string" where
  "cleanPath_of p =
     (let p1 = (case p of CHR ''/'' # r \<Rightarrow> r | _ \<Rightarrow> p);
          p2 = map (\<lambda>c. if c = CHR ''/'' then CHR ''_'' else c) p1;
          p3 = filter is_filename_char p2
      in if p3 = [] then ''root'' else p3)"

definition queryString_of :: "string obj \<Rightarrow> string" where
  "queryString_of qp =
     join ''&''
       (map (\<lambda>k. k @ ''='' @ (case obj_get qp k of Some v \<Rightarrow> v | None \<Rightarrow> ''undefined''))
            (sort_strings (obj_keys qp)))"

definition generateMockFilename :: "RequestSignature \<Rightarrow> string" where
  "generateMockFilename signature =
     (let cleanPath = cleanPath_of (sig_pathname signature);
          queryString = queryString_of (queryParams signature);
          cleanPath' = (if queryString \<noteq> [] then cleanPath @ ''_'' @ simpleHash queryString
                        else cleanPath)
      in toLowerCase (sig_method signature) @ ''_'' @ cleanPath' @ ''.json'')"

definition generateMockPath :: "MockConfig \<Rightarrow> RequestSignature \<Rightarrow> string" where
  "generateMockPath config signature =
     (let filename = generateMockFilename signature;
          pathSegments =
            take 2 (filter (\<lambda>s. s \<noteq> [] \<and> \<not> list_all is_digit s)
                           (split_on CHR ''/'' (sig_pathname signature)));
          subDir = (if join ''/'' pathSegments = [] then ''api'' else join ''/'' pathSegments)
      in mockDir config @ ''/'' @ subDir @ ''/'' @ filename)"

text \<open>\<open>shouldRecordUrl\<close>: each loop tests the patterns in order and returns at the first
  match; a pattern that does not compile throws where it is reached.\<close>

datatype js_error = SyntaxError | TypeError

fun first_match :: "platform \<Rightarrow> string list \<Rightarrow> string \<Rightarrow> js_error + bool" where
  "first_match pf [] url = Inr False"
| "first_match pf (pattern # ps) url =
     (case RegExp_test pf pattern url of
        None \<Rightarrow> Inl SyntaxError
      | Some True \<Rightarrow> Inr True
      | Some False \<Rightarrow> first_match pf ps url)"

definition shouldRecordUrl :: "platform \<Rightarrow> MockConfig \<Rightarrow> string \<Rightarrow> js_error + bool" where
  "shouldRecordUrl pf config url =
     (case first_match pf (excludePatterns config) url of
        Inl e \<Rightarrow> Inl e
      | Inr True \<Rightarrow> Inr False
      | Inr False \<Rightarrow>
          (case first_match pf (includePatterns config) url of
             Inl e \<Rightarrow> Inl e
           | Inr True \<Rightarrow> Inr True
           | Inr False \<Rightarrow> Inr True))"

definition matchRequest :: "RequestSignature \<Rightarrow> MockMetadata \<Rightarrow> bool" where
  "matchRequest request mock =
     (if toUpperCase (sig_method request) \<noteq> toUpperCase (mm_method mock) then False
      else if sig_pathname request \<noteq> mm_pathname mock then False
      else (case mm_queryParams mock of
              None \<Rightarrow> True
            | Some mq \<Rightarrow>
                if length (obj_keys mq) > 0
                then list_all (\<lambda>(key, value). obj_get (queryParams request) key = Some value) mq
                else True))"


section \<open>String search and replacement\<close>

text \<open>\<open>find_sub pat s\<close> splits \<open>s\<close> around the first occurrence of \<open>pat\<close>
  (\<open>s.indexOf(pat)\<close>); \<open>str_includes\<close> is \<open>s.includes(pat)\<close>.\<close>

fun find_sub :: "string \<Rightarrow> string \<Rightarrow> (string \<times> string) option" where
  "find_sub pat [] = (if pat = [] then Some ([], []) else None)"
| "find_sub pat (c # cs) =
     (if startsWith (c # cs) pat then Some ([], drop (length pat) (c # cs))
      else (case find_sub pat cs of
              None \<Rightarrow> None
            | Some (b, a) \<Rightarrow> Some (c # b, a)))"

definition str_includes :: "string \<Rightarrow> string \<Rightarrow> bool" where
  "str_includes s pat = (find_sub pat s \<noteq> None)"

text \<open>\<open>GetSubstitution\<close> of ECMAScript for a match without capture groups: in the
  replacement text \<open>$$\<close> is a dollar sign, \<open>$&\<close> the match, \<open>$`\<close> the text before the match and
  \<open>$'\<close> the text after it; every other character stands for itself.\<close>

fun getSubstitution :: "string \<Rightarrow> string \<Rightarrow> string \<Rightarrow> string \<Rightarrow> string" where
  "getSubstitution m b a [] = []"
| "getSubstitution m b a [c] = [c]"
| "getSubstitution m b a (c # d # r) =
     (if c = CHR ''$'' \<and> d = CHR ''$'' then CHR ''$'' # getSubstitution m b a r
      else if c = CHR ''$'' \<and> d = CHR ''&'' then m @ getSubstitution m b a r
      else if c = CHR ''$'' \<and> d = CHR 0x60 then b @ getSubstitution m b a r
      else if c = CHR ''$'' \<and> d = CHR 0x27 then a @ getSubstitution m b a r
      else c # getSubstitution m b a (d # r))"

text \<open>\<open>s.replace(pat, repl)\<close> with a string pattern: the first occurrence only.\<close>

definition replace_first :: "string \<Rightarrow> string \<Rightarrow> string \<Rightarrow> string" where
  "replace_first s pat repl =
     (case find_sub pat s of
        None \<Rightarrow> s
      | Some (b, a) \<Rightarrow> b @ getSubstitution pat b a repl @ a)"

text \<open>\<open>s.replace(new RegExp(escapeRegex(pat), 'g'), repl)\<close>: \<open>escapeRegex\<close> makes the
  expression match the text \<open>pat\<close> literally, and the \<open>g\<close> flag replaces every occurrence,
  left to right without overlap. \<open>pre\<close> is the part of the subject already passed. The empty
  pattern matches once before every character and once at the end.\<close>

fun replace_empty_from :: "string \<Rightarrow> string \<Rightarrow> string \<Rightarrow> string" where
  "replace_empty_from pre [] repl = getSubstitution [] pre [] repl"
| "replace_empty_from pre (c # cs) repl =
     getSubstitution [] pre (c # cs) repl @ c # replace_empty_from (pre @ [c]) cs repl"

function replace_all_from :: "string \<Rightarrow> string \<Rightarrow> string \<Rightarrow> string \<Rightarrow> string" where
  "replace_all_from pre s pat repl =
     (if pat = [] then replace_empty_from pre s repl
      else (case find_sub pat s of
              None \<Rightarrow> s
            | Some (b, a) \<Rightarrow>
                b @ getSubstitution pat (pre @ b) a repl
                  @ replace_all_from (pre @ b @ pat) a pat repl))"
  by pat_completeness auto

lemma find_sub_length:
  "find_sub pat s = Some (b, a) \<Longrightarrow> length b + length pat + length a = length s"
proof (induction s arbitrary: b)
  case Nil
  then show ?case by (simp split: if_splits)
next
  case (Cons c cs)
  show ?case
  proof (cases "startsWith (c # cs) pat")
    case True
    then have "length (take (length pat) (c # cs)) = length pat"
      by (simp add: startsWith_def)
    then have "length pat \<le> length (c # cs)"
      by simp
    with True Cons.prems show ?thesis by auto
  next
    case False
    with Cons.prems obtain b' where "find_sub pat cs = Some (b', a)" and "b = c # b'"
      by (auto split: option.splits)
    with Cons.IH [of b'] show ?thesis by simp
  qed
qed

termination replace_all_from
proof (relation "measure (\<lambda>(pre, s, pat, repl). length s)")
  show "wf (measure (\<lambda>(pre, s, pat, repl). length s))" by simp
next
  fix pre s pat repl :: string and x2 :: "string \<times> string" and b a :: string
  assume "pat \<noteq> []" and "find_sub pat s = Some x2" and "(b, a) = x2"
  then have "length b + length pat + length a = length s"
    using find_sub_length [of pat s b a] by simp
  with \<open>pat \<noteq> []\<close> show "((pre @ b @ pat, a, pat, repl), (pre, s, pat, repl))
      \<in> measure (\<lambda>(pre, s, pat, repl). length s)"
    by (cases pat) auto
qed

definition replace_all :: "string \<Rightarrow> string \<Rightarrow> string \<Rightarrow> string" where
  "replace_all s pat repl = replace_all_from [] s pat repl"

section \<open>Data sanitizer (sanitizer.ts)\<close>

datatype header_value = Single string | Multi "string list"

type_synonym headers = "header_value obj"

text \<open>An option that is absent is falsy: it is \<open>False\<close> here.\<close>

record SanitizeOptions =
  opt_sanitizeHeaders :: bool
  opt_sanitizeCookies :: bool
  opt_sanitizePII :: bool
  opt_maskAuthValues :: bool

definition defaultSanitizeOptions :: SanitizeOptions where
  "defaultSanitizeOptions = \<lparr>
     opt_sanitizeHeaders = True,
     opt_sanitizeCookies = True,
     opt_sanitizePII = False,
     opt_maskAuthValues = True \<rparr>"

definition REMOVED :: string where
  "REMOVED = ''***REMOVED***''"

definition sanitizeHeaders_step ::
  "MockConfig \<Rightarrow> SanitizeOptions \<Rightarrow> headers \<Rightarrow> string \<times> header_value \<Rightarrow> headers" where
  "sanitizeHeaders_step config options sanitized kv =
     (let key = fst kv; value = snd kv; lowerKey = toLowerCase key
      in if list_ex (\<lambda>h. lowerKey = toLowerCase h) (sanitizeHeaders_list config)
         then (if opt_maskAuthValues options then obj_set sanitized key (Single REMOVED)
               else sanitized)
         else if opt_sanitizeCookies options
                 \<and> (lowerKey = ''cookie'' \<or> lowerKey = ''set-cookie'')
         then obj_set sanitized key (Single REMOVED)
         else obj_set sanitized key value)"

definition sanitizeHeaders :: "MockConfig \<Rightarrow> headers \<Rightarrow> SanitizeOptions \<Rightarrow> headers" where
  "sanitizeHeaders config headers options =
     (if \<not> opt_sanitizeHeaders options then headers
      else foldl (sanitizeHeaders_step config options) [] headers)"

definition piiPatterns :: "(pii_regex \<times> string) list" where
  "piiPatterns =
     [(EmailRx, ''***EMAIL***''), (PhoneRx, ''***PHONE***''), (CardRx, ''***CARD***''),
      (SsnRx, ''***SSN***''), (JwtRx, ''***JWT***'')]"

definition sanitizeString :: "platform \<Rightarrow> string \<Rightarrow> string" where
  "sanitizeString pf str =
     foldl (\<lambda>result (pattern, replacement). pii_replace pf pattern result replacement)
           str piiPatterns"


text \<open>\<open>sanitizeBody\<close> walks strings, arrays and objects; without the PII option it returns
  the body at once.\<close>

lemma json_size_snd [termination_simp]:
  "kv \<in> set kvs \<Longrightarrow> size (snd kv) < Suc (size_list (size_prod (\<lambda>_. 0) size) kvs)"
  by (induction kvs) auto

fun sanitizeBody :: "platform \<Rightarrow> json \<Rightarrow> SanitizeOptions \<Rightarrow> json" where
  "sanitizeBody pf (JStr s) options =
     (if \<not> opt_sanitizePII options then JStr s else JStr (sanitizeString pf s))"
| "sanitizeBody pf (JArr items) options =
     (if \<not> opt_sanitizePII options then JArr items
      else JArr (map (\<lambda>item. sanitizeBody pf item options) items))"
| "sanitizeBody pf (JObj kvs) options =
     (if \<not> opt_sanitizePII options then JObj kvs
      else JObj (foldl (\<lambda>sanitized kv.
                   obj_set sanitized (fst kv) (sanitizeBody pf (snd kv) options)) [] kvs))"
| "sanitizeBody pf body options = body"

text \<open>\<open>URLSearchParams.prototype.has\<close> and \<open>set\<close>: \<open>set\<close> gives the first pair of that
  name the new value and removes the others, or appends a pair.\<close>

definition sp_has :: "(string \<times> string) list \<Rightarrow> string \<Rightarrow> bool" where
  "sp_has ps name = list_ex (\<lambda>p. fst p = name) ps"

fun sp_set :: "(string \<times> string) list \<Rightarrow> string \<Rightarrow> string \<Rightarrow> (string \<times> string) list" where
  "sp_set [] name v = [(name, v)]"
| "sp_set (p # ps) name v =
     (if fst p = name then (name, v) # filter (\<lambda>q. fst q \<noteq> name) ps
      else p # sp_set ps name v)"

definition sensitiveParams :: "string list" where
  "sensitiveParams =
     [''token'', ''access_token'', ''api_key'', ''apikey'', ''auth'', ''key'', ''secret'',
      ''password'', ''pwd'']"

text \<open>One round of the loop of \<open>sanitizeUrl\<close>: setting a parameter rewrites the query of
  the URL from the list (an empty serialization gives a null query).\<close>

definition sanitizeUrl_step ::
  "platform \<Rightarrow> URL \<times> (string \<times> string) list \<Rightarrow> string \<Rightarrow> URL \<times> (string \<times> string) list" where
  "sanitizeUrl_step pf st param =
     (let urlObj = fst st; ps = snd st
      in if sp_has ps param
         then (let ps' = sp_set ps param REMOVED;
                   q = urlencoded_serialize pf ps'
               in (urlObj\<lparr>query := (if q = [] then None else Some q)\<rparr>, ps'))
         else st)"

definition sanitizeUrl :: "platform \<Rightarrow> string \<Rightarrow> string" where
  "sanitizeUrl pf url =
     (case URL_new pf url (baseUrl url) of
        None \<Rightarrow> url
      | Some urlObj0 \<Rightarrow>
          (let urlObj = fst (foldl (sanitizeUrl_step pf) (urlObj0, searchParams pf urlObj0)
                                   sensitiveParams)
           in if startsWith url ''http'' then href urlObj
              else pathname urlObj @ search urlObj))"

text \<open>\<open>applyDynamicPlaceholders\<close>. For a string, the test \<open>data.includes(value)\<close> is on the
  original text and the replacement on the running result.\<close>

definition placeholder_token :: "string \<Rightarrow> string" where
  "placeholder_token field = ''{{'' @ field @ ''}}''"

fun applyDynamicPlaceholders :: "MockConfig \<Rightarrow> json \<Rightarrow> (string \<times> string) list \<Rightarrow> json" where
  "applyDynamicPlaceholders config (JStr data) patterns =
     JStr (foldl (\<lambda>result p.
             if str_includes data (snd p)
             then replace_all result (snd p) (placeholder_token (fst p))
             else result) data patterns)"
| "applyDynamicPlaceholders config (JArr items) patterns =
     JArr (map (\<lambda>item. applyDynamicPlaceholders config item patterns) items)"
| "applyDynamicPlaceholders config (JObj kvs) patterns =
     JObj (foldl (\<lambda>result kv.
             (case find (\<lambda>p. fst p = fst kv) patterns of
                None \<Rightarrow>
                  obj_set result (fst kv) (applyDynamicPlaceholders config (snd kv) patterns)
              | Some matchingPattern \<Rightarrow>
                  if snd kv = JStr (snd matchingPattern)
                  then obj_set result (fst kv) (JStr (dynamicPlaceholder config))
                  else obj_set result (fst kv)
                         (applyDynamicPlaceholders config (snd kv) patterns))) [] kvs)"
| "applyDynamicPlaceholders config data patterns = data"

text \<open>\<open>String(value)\<close> for JSON-like values (integers of magnitude below \<open>10^21\<close> print in
  decimal); inside an array, \<open>null\<close> prints as the empty string.\<close>

fun nat_toString :: "nat \<Rightarrow> string" where
  "nat_toString n =
     (if n < 10 then [digit36 n] else nat_toString (n div 10) @ [digit36 (n mod 10)])"

definition int_toString :: "int \<Rightarrow> string" where
  "int_toString i = (if i < 0 then ''-'' @ nat_toString (nat (- i)) else nat_toString (nat i))"

fun js_String :: "json \<Rightarrow> string" where
  "js_String JNull = ''null''"
| "js_String (JBool b) = (if b then ''true'' else ''false'')"
| "js_String (JNum i) = int_toString i"
| "js_String (JStr s) = s"
| "js_String (JArr items) =
     join '','' (map (\<lambda>item. if item = JNull then [] else js_String item) items)"
| "js_String (JObj kvs) = ''[object Object]''"

text \<open>\<open>resolveDynamicPlaceholders\<close>. \<open>values['_default'] ?? data\<close> keeps the data when
  the key is absent or null; \<open>key in values\<close> is modelled for own keys.\<close>

fun resolveDynamicPlaceholders :: "MockConfig \<Rightarrow> json \<Rightarrow> json obj \<Rightarrow> json" where
  "resolveDynamicPlaceholders config (JStr data) values =
     (if data = dynamicPlaceholder config
      then (case obj_get values ''_default'' of
              None \<Rightarrow> JStr data
            | Some JNull \<Rightarrow> JStr data
            | Some v \<Rightarrow> v)
      else JStr (foldl (\<lambda>result kv.
                   replace_first result (placeholder_token (fst kv)) (js_String (snd kv)))
                 data values))"
| "resolveDynamicPlaceholders config (JArr items) values =
     JArr (map (\<lambda>item. resolveDynamicPlaceholders config item values) items)"
| "resolveDynamicPlaceholders config (JObj kvs) values =
     JObj (foldl (\<lambda>result kv.
             (case obj_get values (fst kv) of
                Some v \<Rightarrow>
                  if snd kv = JStr (dynamicPlaceholder config)
                  then obj_set result (fst kv) v
                  else obj_set result (fst kv)
                         (resolveDynamicPlaceholders config (snd kv) values)
              | None \<Rightarrow>
                  obj_set result (fst kv)
                    (resolveDynamicPlaceholders config (snd kv) values))) [] kvs)"
| "resolveDynamicPlaceholders config data values = data"

text \<open>\<open>sanitizeRecordedData\<close>: the full pipeline. A field that is absent or falsy comes
  out \<open>undefined\<close>; an object is always truthy.\<close>

definition truthy :: "json \<Rightarrow> bool" where
  "truthy v = (v \<noteq> JNull \<and> v \<noteq> JBool False \<and> v \<noteq> JNum 0 \<and> v \<noteq> JStr [])"

record RecordedData =
  rd_url :: string
  rd_requestHeaders :: "headers option"
  rd_responseHeaders :: "headers option"
  rd_requestBody :: "json option"
  rd_responseBody :: "json option"

definition sanitizeBody_opt :: "platform \<Rightarrow> json option \<Rightarrow> SanitizeOptions \<Rightarrow> json option" where
  "sanitizeBody_opt pf b options =
     (case b of
        None \<Rightarrow> None
      | Some v \<Rightarrow> if truthy v then Some (sanitizeBody pf v options) else None)"

definition sanitizeRecordedData ::
  "platform \<Rightarrow> MockConfig \<Rightarrow> RecordedData \<Rightarrow> SanitizeOptions \<Rightarrow> RecordedData" where
  "sanitizeRecordedData pf config data options = \<lparr>
     rd_url = sanitizeUrl pf (rd_url data),
     rd_requestHeaders = map_option (\<lambda>h. sanitizeHeaders config h options) (rd_requestHeaders data),
     rd_responseHeaders = map_option (\<lambda>h. sanitizeHeaders config h options) (rd_responseHeaders data),
     rd_requestBody = sanitizeBody_opt pf (rd_requestBody data) options,
     rd_responseBody = sanitizeBody_opt pf (rd_responseBody data) options \<rparr>"


section \<open>Storage tasks (cypress.config.ts) and mock storage (mockStorage.ts)\<close>

record RecordedMock =
  rm_method :: string
  rm_url :: string
  rm_pathname :: string
  rm_queryParams :: "string obj"
  rm_status :: int
  rm_statusMessage :: "string option"
  rm_requestHeaders :: "headers option"
  rm_responseHeaders :: "headers option"
  rm_requestBody :: "json option"
  rm_response :: json
  rm_responseTime :: "nat option"
  rm_recordedAt :: string
  rm_version :: "string option"
  rm_metadata :: "json obj option"

text \<open>The mock directory: a file holds the JSON text of an artifact, as \<open>writeMock\<close>
  stored it, or text that \<open>JSON.parse\<close> rejects. A file with the JSON text of some other
  value (\<open>null\<close>, \<open>{}\<close>), which \<open>readMock\<close> would return as it is and the callers would
  take for a \<open>RecordedMock\<close> unchecked, is outside the model. Paths are the strings the
  tasks are called with.\<close>

datatype mock_file = Corrupt | Stored RecordedMock

type_synonym fs = "mock_file obj"

text \<open>\<open>readMock\<close>: \<open>null\<close> when the file does not exist; \<open>JSON.parse\<close> is not guarded, so
  a corrupt file makes the task throw.\<close>

definition readMock :: "fs \<Rightarrow> string \<Rightarrow> js_error + RecordedMock option" where
  "readMock files filePath =
     (case obj_get files filePath of
        None \<Rightarrow> Inr None
      | Some Corrupt \<Rightarrow> Inl SyntaxError
      | Some (Stored m) \<Rightarrow> Inr (Some m))"

definition writeMock :: "fs \<Rightarrow> string \<Rightarrow> RecordedMock \<Rightarrow> fs" where
  "writeMock files filePath data = obj_set files filePath (Stored data)"

text \<open>\<open>listMocks\<close>: the paths, relative to the directory, of the \<open>.json\<close> files below it,
  in the order of the walk. \<open>readdirSync\<close> gives the names in a directory in ascending
  order, and a subdirectory is walked where its name comes, so the paths come ordered by
  their segments.\<close>

definition listMocks_task :: "fs \<Rightarrow> string \<Rightarrow> string list" where
  "listMocks_task files dirPath =
     sort_key (split_on CHR ''/'')
       (map (\<lambda>p. drop (length dirPath + 1) p)
            (filter (\<lambda>p. startsWith p (dirPath @ ''/'') \<and> endsWith p ''.json'')
               (obj_keys files)))"

datatype task_call = ReadMock_call string | WriteMock_call string | ListMocks_call string

record request =
  req_method :: string
  req_url :: string
  req_headers :: headers
  req_body :: "json option"

record response =
  statusCode :: int
  statusMessage :: "string option"
  res_headers :: "headers option"
  res_body :: json

text \<open>The module-level variables of mockStorage.ts and networkRecorder.ts, the mock
  directory, and a log of the calls made to the storage tasks and to the real backend.\<close>

record world =
  isRecording :: bool
  isReplaying :: bool
  interceptedRequests :: nat
  recordedRequests :: nat
  replayedRequests :: nat
  mockCache :: "RecordedMock obj"
  sessionMocks :: "string list"
  files :: fs
  task_log :: "task_call list"
  backend_log :: "request list"

record save_request =
  sr_method :: string
  sr_url :: string
  sr_headers :: "headers option"
  sr_body :: "json option"

text \<open>\<open>saveMock\<close>; \<open>now\<close> is \<open>new Date().toISOString()\<close>.\<close>

definition saveMock ::
  "platform \<Rightarrow> MockConfig \<Rightarrow> string \<Rightarrow> world \<Rightarrow> save_request \<Rightarrow> response \<Rightarrow> nat option
     \<Rightarrow> world \<times> string" where
  "saveMock pf config now w request response responseTime =
     (let signature = createRequestSignature pf (sr_method request) (sr_url request);
          filePath = generateMockPath config signature;
          mock = \<lparr>
            rm_method = sig_method signature,
            rm_url = sr_url request,
            rm_pathname = sig_pathname signature,
            rm_queryParams = queryParams signature,
            rm_status = statusCode response,
            rm_statusMessage = statusMessage response,
            rm_requestHeaders = sr_headers request,
            rm_responseHeaders = res_headers response,
            rm_requestBody = sr_body request,
            rm_response = res_body response,
            rm_responseTime = responseTime,
            rm_recordedAt = now,
            rm_version = None,
            rm_metadata = None \<rparr>;
          w1 = w\<lparr>files := writeMock (files w) filePath mock,
                  task_log := task_log w @ [WriteMock_call filePath]\<rparr>;
          w2 = w1\<lparr>sessionMocks := sessionMocks w1 @ [filePath]\<rparr>
      in (w2, filePath))"

definition cacheKey_of :: "RequestSignature \<Rightarrow> string" where
  "cacheKey_of signature = sig_method signature @ '':'' @ normalizedUrl signature"

definition loadMock ::
  "MockConfig \<Rightarrow> world \<Rightarrow> RequestSignature \<Rightarrow> js_error + (world \<times> RecordedMock option)" where
  "loadMock config w signature =
     (let filePath = generateMockPath config signature;
          cacheKey = cacheKey_of signature
      in case obj_get (mockCache w) cacheKey of
           Some cached \<Rightarrow> Inr (w, Some cached)
         | None \<Rightarrow>
             (case readMock (files w) filePath of
                Inl e \<Rightarrow> Inl e
              | Inr mock \<Rightarrow>
                  (let w1 = w\<lparr>task_log := task_log w @ [ReadMock_call filePath]\<rparr>
                   in case mock of
                        Some m \<Rightarrow> Inr (w1\<lparr>mockCache := obj_set (mockCache w1) cacheKey m\<rparr>, Some m)
                      | None \<Rightarrow> Inr (w1, None))))"

definition clearCache :: "world \<Rightarrow> world" where
  "clearCache w = w\<lparr>mockCache := []\<rparr>"

definition getSessionMocks :: "world \<Rightarrow> string list" where
  "getSessionMocks w = sessionMocks w"

text \<open>\<open>preloadMocks\<close>: one \<open>readMock\<close> task per listed file, in order; the result is the
  size of the cache. A task that throws fails the chain.\<close>

fun preload_files ::
  "platform \<Rightarrow> MockConfig \<Rightarrow> world \<Rightarrow> string list \<Rightarrow> js_error + world" where
  "preload_files pf config w [] = Inr w"
| "preload_files pf config w (fname # rest) =
     (let filePath = mockDir config @ ''/'' @ fname
      in case readMock (files w) filePath of
           Inl e \<Rightarrow> Inl e
         | Inr mock \<Rightarrow>
             (let w1 = w\<lparr>task_log := task_log w @ [ReadMock_call filePath]\<rparr>
              in case mock of
                   None \<Rightarrow> preload_files pf config w1 rest
                 | Some m \<Rightarrow>
                     (let signature = createRequestSignature pf (rm_method m) (rm_url m);
                          cacheKey = cacheKey_of signature
                      in preload_files pf config
                           (w1\<lparr>mockCache := obj_set (mockCache w1) cacheKey m\<rparr>) rest)))"

definition preloadMocks :: "platform \<Rightarrow> MockConfig \<Rightarrow> world \<Rightarrow> js_error + (world \<times> nat)" where
  "preloadMocks pf config w =
     (let listed = listMocks_task (files w) (mockDir config);
          w0 = w\<lparr>task_log := task_log w @ [ListMocks_call (mockDir config)]\<rparr>
      in case preload_files pf config w0 listed of
           Inl e \<Rightarrow> Inl e
         | Inr w' \<Rightarrow> Inr (w', length (mockCache w')))"

section \<open>Network recorder (networkRecorder.ts)\<close>

datatype mode = Record | Replay | Passthrough

text \<open>\<open>getMode\<close> reads the \<open>MODE\<close> environment variable (\<open>None\<close> when unset).\<close>

definition getMode :: "string option \<Rightarrow> mode" where
  "getMode env_MODE =
     (case env_MODE of
        None \<Rightarrow> Passthrough
      | Some m \<Rightarrow>
          (let mode = toLowerCase m
           in if mode = ''record'' then Record
              else if mode = ''replay'' \<or> mode = ''mock'' then Replay
              else Passthrough))"

definition initNetworkRecorder :: "string option \<Rightarrow> world \<Rightarrow> world" where
  "initNetworkRecorder env_MODE w =
     (let w0 = w\<lparr>interceptedRequests := 0, recordedRequests := 0, replayedRequests := 0\<rparr>
      in case getMode env_MODE of
           Record \<Rightarrow> w0\<lparr>isRecording := True, isReplaying := False\<rparr>
         | Replay \<Rightarrow> w0\<lparr>isRecording := False, isReplaying := True\<rparr>
         | Passthrough \<Rightarrow> w0\<lparr>isRecording := False, isReplaying := False\<rparr>)"

definition stopNetworkRecorder :: "world \<Rightarrow> world" where
  "stopNetworkRecorder w = w\<lparr>isRecording := False, isReplaying := False\<rparr>"

text \<open>\<open>req.continue\<close>: the request goes to the real backend, whose response reaches the
  test as it is (neither callback changes \<open>res\<close>).\<close>

definition continue_req :: "(request \<Rightarrow> response) \<Rightarrow> world \<Rightarrow> request \<Rightarrow> world \<times> response" where
  "continue_req backend w req = (w\<lparr>backend_log := backend_log w @ [req]\<rparr>, backend req)"

text \<open>What both modes pass to \<open>saveMock\<close>: headers through \<open>sanitizeHeaders\<close> with its
  default options, the URL and the bodies as they are.\<close>

definition save_exchange ::
  "platform \<Rightarrow> MockConfig \<Rightarrow> string \<Rightarrow> world \<Rightarrow> request \<Rightarrow> response \<Rightarrow> nat
     \<Rightarrow> world \<times> string" where
  "save_exchange pf config now w req res responseTime =
     saveMock pf config now w
       \<lparr> sr_method = req_method req,
         sr_url = req_url req,
         sr_headers = Some (sanitizeHeaders config (req_headers req) defaultSanitizeOptions),
         sr_body = req_body req \<rparr>
       \<lparr> statusCode = statusCode res,
         statusMessage = statusMessage res,
         res_headers =
           map_option (\<lambda>h. sanitizeHeaders config h defaultSanitizeOptions) (res_headers res),
         res_body = res_body res \<rparr>
       (Some responseTime)"

text \<open>The handler \<open>setupRecordMode\<close> installs. \<open>responseTime\<close> is the measured delay.\<close>

definition setupRecordMode ::
  "platform \<Rightarrow> MockConfig \<Rightarrow> (request \<Rightarrow> response) \<Rightarrow> nat \<Rightarrow> string \<Rightarrow> world \<Rightarrow> request
     \<Rightarrow> js_error + (world \<times> response)" where
  "setupRecordMode pf config backend responseTime now w req =
     (let url = req_url req
      in case shouldRecordUrl pf config url of
           Inl e \<Rightarrow> Inl e
         | Inr False \<Rightarrow> Inr (continue_req backend w req)
         | Inr True \<Rightarrow>
             (let w1 = w\<lparr>interceptedRequests := interceptedRequests w + 1\<rparr>;
                  (w2, res) = continue_req backend w1 req;
                  (w3, filePath) = save_exchange pf config now w2 req res responseTime;
                  w4 = w3\<lparr>recordedRequests := recordedRequests w3 + 1\<rparr>
              in Inr (w4, res)))"

definition mock_not_found :: "request \<Rightarrow> response" where
  "mock_not_found req = \<lparr>
     statusCode = 500,
     statusMessage = None,
     res_headers = None,
     res_body = JObj
       [(''error'', JStr ''Mock not found''),
        (''message'', JStr (''No mock available for '' @ req_method req @ '' '' @ req_url req)),
        (''hint'', JStr ''Run tests with MODE=record first, or enable AUTO_FALLBACK'')] \<rparr>"

text \<open>The handler \<open>setupReplayMode\<close> installs. It replies or continues in the \<open>then\<close> of
  \<open>loadMock\<close>; the model takes the interception to stay open until then (how Cypress
  treats a handler that returns before it has replied is outside the repository).\<close>

definition setupReplayMode ::
  "platform \<Rightarrow> MockConfig \<Rightarrow> (request \<Rightarrow> response) \<Rightarrow> nat \<Rightarrow> string \<Rightarrow> world \<Rightarrow> request
     \<Rightarrow> js_error + (world \<times> response)" where
  "setupReplayMode pf config backend responseTime now w req =
     (let url = req_url req
      in case shouldRecordUrl pf config url of
           Inl e \<Rightarrow> Inl e
         | Inr False \<Rightarrow> Inr (continue_req backend w req)
         | Inr True \<Rightarrow>
             (let w1 = w\<lparr>interceptedRequests := interceptedRequests w + 1\<rparr>;
                  signature = createRequestSignature pf (req_method req) url
              in case loadMock config w1 signature of
                   Inl e \<Rightarrow> Inl e
                 | Inr (w2, Some mock) \<Rightarrow>
                     Inr (w2\<lparr>replayedRequests := replayedRequests w2 + 1\<rparr>,
                          \<lparr> statusCode = rm_status mock,
                            statusMessage = None,
                            res_headers = rm_responseHeaders mock,
                            res_body = rm_response mock \<rparr>)
                 | Inr (w2, None) \<Rightarrow>
                     if autoFallback config
                     then (let (w3, res) = continue_req backend w2 req;
                               (w4, filePath) = save_exchange pf config now w3 req res responseTime
                           in Inr (w4, res))
                     else Inr (w2, mock_not_found req)))"

definition getRecorderState :: "world \<Rightarrow> bool \<times> bool \<times> nat \<times> nat \<times> nat" where
  "getRecorderState w =
     (isRecording w, isReplaying w, interceptedRequests w, recordedRequests w,
      replayedRequests w)"


section \<open>A concrete platform\<close>

text \<open>
  For evaluation on concrete inputs the platform is instantiated by \<open>std\<close>, which follows
  the URL Standard (url.spec.whatwg.org) and ECMAScript on the inputs used below:
  \<^item> \<open>new URL(url, base)\<close> first parses \<open>base\<close>, which was given, on its own, and throws
    when that fails (the API URL parser of the standard); the empty string has no scheme,
    so it is not a URL;
  \<^item> a \<open>url\<close> without a scheme is resolved against the base through the relative, path,
    query and fragment states of the parser;
  \<^item> the schemes \<open>http\<close> and \<open>https\<close> are modelled, with a host made of letters, digits,
    dots and hyphens and without credentials; a missing host and a port that is not a
    number below 65536 are failures, as in the standard. Other schemes and other hosts
    are outside the model: \<open>std\<close> gives \<open>None\<close> there, which says nothing of the
    constructor, and no evaluation below is at such an input;
  \<^item> percent-escapes in a query decode to ASCII characters.
\<close>

subsection \<open>Percent-encoding\<close>

definition hex_digit :: "nat \<Rightarrow> char" where
  "hex_digit d = (''0123456789ABCDEF'' ! d)"

definition percent_byte :: "nat \<Rightarrow> string" where
  "percent_byte n = [CHR ''%'', hex_digit (n div 16), hex_digit (n mod 16)]"

text \<open>UTF-8 percent-encoding of one character (a code point below 256) when it is in the
  given set.\<close>

definition utf8_percent_encode :: "(char \<Rightarrow> bool) \<Rightarrow> char \<Rightarrow> string" where
  "utf8_percent_encode in_set c =
     (let n = (of_char c :: nat)
      in if \<not> in_set c then [c]
         else if n < 128 then percent_byte n
         else percent_byte (192 + n div 64) @ percent_byte (128 + n mod 64))"

definition c0_control_set :: "char \<Rightarrow> bool" where
  "c0_control_set c = ((of_char c :: nat) < 32 \<or> (of_char c :: nat) > 126)"

definition fragment_set :: "char \<Rightarrow> bool" where
  "fragment_set c = (c0_control_set c \<or> c \<in> set [CHR '' '', CHR 0x22, CHR ''<'', CHR ''>'', CHR 0x60])"

definition query_set :: "char \<Rightarrow> bool" where
  "query_set c = (c0_control_set c \<or> c \<in> set [CHR '' '', CHR 0x22, CHR ''#'', CHR ''<'', CHR ''>''])"

definition special_query_set :: "char \<Rightarrow> bool" where
  "special_query_set c = (query_set c \<or> c = CHR 0x27)"

definition path_set :: "char \<Rightarrow> bool" where
  "path_set c = (query_set c \<or> c \<in> set [CHR ''?'', CHR 0x60, CHR ''{'', CHR ''}''])"

definition urlencoded_keep :: "char \<Rightarrow> bool" where
  "urlencoded_keep c =
     (is_lower c \<or> is_upper c \<or> is_digit c \<or> c \<in> set [CHR ''*'', CHR ''-'', CHR ''.'', CHR ''_''])"

subsection \<open>The URL parser\<close>

definition is_c0_or_space :: "char \<Rightarrow> bool" where
  "is_c0_or_space c = ((of_char c :: nat) \<le> 32)"

definition is_tab_or_newline :: "char \<Rightarrow> bool" where
  "is_tab_or_newline c = ((of_char c :: nat) \<in> set [9, 10, 13])"

definition url_preprocess :: "string \<Rightarrow> string" where
  "url_preprocess s =
     filter (\<lambda>c. \<not> is_tab_or_newline c)
       (rev (dropWhile is_c0_or_space (rev (dropWhile is_c0_or_space s))))"

definition is_alpha :: "char \<Rightarrow> bool" where
  "is_alpha c = (is_lower c \<or> is_upper c)"

definition is_scheme_char :: "char \<Rightarrow> bool" where
  "is_scheme_char c = (is_alpha c \<or> is_digit c \<or> c \<in> set [CHR ''+'', CHR ''-'', CHR ''.''])"

text \<open>\<open>split_scheme s\<close>: the scheme (lower case) and what follows its colon, when \<open>s\<close>
  starts with a scheme.\<close>

definition split_scheme :: "string \<Rightarrow> (string \<times> string) option" where
  "split_scheme s =
     (case s of
        [] \<Rightarrow> None
      | c # cs \<Rightarrow>
          if \<not> is_alpha c then None
          else (case dropWhile is_scheme_char cs of
                  [] \<Rightarrow> None
                | d # r \<Rightarrow>
                    if d = CHR '':'' then Some (toLowerCase (c # takeWhile is_scheme_char cs), r)
                    else None))"

text \<open>\<open>split_first p s\<close>: the text before the first character satisfying \<open>p\<close>, and the text
  after that character if there is one.\<close>

definition split_first :: "(char \<Rightarrow> bool) \<Rightarrow> string \<Rightarrow> string \<times> string option" where
  "split_first p s =
     (takeWhile (\<lambda>c. \<not> p c) s,
      case dropWhile (\<lambda>c. \<not> p c) s of [] \<Rightarrow> None | _ # r \<Rightarrow> Some r)"

definition is_slash :: "char \<Rightarrow> bool" where
  "is_slash c = (c = CHR ''/'' \<or> c = CHR 0x5C)"

text \<open>The segments of a path: both slashes separate in a special URL.\<close>

fun split_segments :: "string \<Rightarrow> string list" where
  "split_segments [] = [[]]"
| "split_segments (x # xs) =
     (if is_slash x then [] # split_segments xs
      else (case split_segments xs of
              [] \<Rightarrow> [[x]]
            | p # ps \<Rightarrow> (x # p) # ps))"

definition is_single_dot :: "string \<Rightarrow> bool" where
  "is_single_dot b = (b = ''.'' \<or> toLowerCase b = ''%2e'')"

definition is_double_dot :: "string \<Rightarrow> bool" where
  "is_double_dot b =
     (b = ''..'' \<or> toLowerCase b \<in> set [''.%2e'', ''%2e.'', ''%2e%2e''])"

definition shorten :: "string list \<Rightarrow> string list" where
  "shorten p = butlast p"

text \<open>The path state: each segment is percent-encoded and appended, a dot segment is
  dropped, a double-dot segment removes the last segment; \<open>acc\<close> is the path so far.\<close>

fun path_state :: "string list \<Rightarrow> string list \<Rightarrow> string list" where
  "path_state acc [] = acc"
| "path_state acc (seg # rest) =
     (let buffer = concat (map (utf8_percent_encode path_set) seg);
          is_last = (rest = [])
      in if is_double_dot buffer
         then path_state (if is_last then shorten acc @ [[]] else shorten acc) rest
         else if is_single_dot buffer
         then path_state (if is_last then acc @ [[]] else acc) rest
         else path_state (acc @ [buffer]) rest)"

definition serialize_path :: "string list \<Rightarrow> string" where
  "serialize_path segs = concat (map (\<lambda>seg. CHR ''/'' # seg) segs)"

definition encode_query :: "string \<Rightarrow> string" where
  "encode_query q = concat (map (utf8_percent_encode special_query_set) q)"

definition encode_fragment :: "string \<Rightarrow> string" where
  "encode_fragment f = concat (map (utf8_percent_encode fragment_set) f)"

text \<open>The path, query and fragment of the input from the path state on; \<open>start\<close> is the
  path before the path state.\<close>

definition parse_tail :: "string list \<Rightarrow> string \<Rightarrow> string \<times> string option \<times> string option" where
  "parse_tail start s =
     (let (before_hash, frag) = split_first (\<lambda>c. c = CHR ''#'') s;
          (path_in, qry) = split_first (\<lambda>c. c = CHR ''?'') before_hash
      in (serialize_path (path_state start (split_segments path_in)),
          map_option encode_query qry,
          map_option encode_fragment frag))"

definition is_host_char :: "char \<Rightarrow> bool" where
  "is_host_char c = (is_alpha c \<or> is_digit c \<or> c = CHR ''-'' \<or> c = CHR ''.'')"

text \<open>A modelled host: letters, digits, hyphens and dots, no label in Punycode form, and
  the last label starting with a letter (so it is a domain, not an IPv4 address).\<close>

definition modelled_host :: "string \<Rightarrow> bool" where
  "modelled_host h =
     (h \<noteq> [] \<and> list_all is_host_char h
      \<and> list_all (\<lambda>l. \<not> startsWith (toLowerCase l) ''xn--'') (split_on CHR ''.'' h)
      \<and> (case filter (\<lambda>l. l \<noteq> []) (split_on CHR ''.'' h) of
            [] \<Rightarrow> False
          | l # ls \<Rightarrow> is_alpha (hd (last (l # ls)))))"

fun digits_value :: "nat \<Rightarrow> string \<Rightarrow> nat" where
  "digits_value acc [] = acc"
| "digits_value acc (c # cs) = digits_value (10 * acc + ((of_char c :: nat) - 48)) cs"

text \<open>The port state: digits, at most 65535; the default port of the scheme is dropped.
  The outer \<open>None\<close> is failure.\<close>

definition parse_port :: "string \<Rightarrow> string \<Rightarrow> string option option" where
  "parse_port sch p =
     (if p = [] then Some None
      else if \<not> list_all is_digit p \<or> digits_value 0 p > 65535 then None
      else if (sch = ''http'' \<and> digits_value 0 p = 80) \<or> (sch = ''https'' \<and> digits_value 0 p = 443)
      then Some None
      else Some (Some (nat_toString (digits_value 0 p))))"

text \<open>From the state that ignores slashes on: the slashes are skipped, the authority runs
  to the next slash, \<open>?\<close> or \<open>#\<close>, and the tail follows. An empty host is failure.\<close>

definition parse_authority :: "string \<Rightarrow> string \<Rightarrow> URL option" where
  "parse_authority sch s =
     (let s' = dropWhile is_slash s;
          authority = takeWhile (\<lambda>c. \<not> is_slash c \<and> c \<noteq> CHR ''?'' \<and> c \<noteq> CHR ''#'') s';
          rest = dropWhile (\<lambda>c. \<not> is_slash c \<and> c \<noteq> CHR ''?'' \<and> c \<noteq> CHR ''#'') s';
          (h, p) = split_first (\<lambda>c. c = CHR '':'') authority;
          tail = (if rest \<noteq> [] \<and> is_slash (hd rest) then tl rest else rest)
      in if \<not> modelled_host h then None
         else (case parse_port sch (case p of None \<Rightarrow> [] | Some d \<Rightarrow> d) of
                 None \<Rightarrow> None
               | Some prt \<Rightarrow>
                   (let (pth, qry, frag) = parse_tail [] tail
                    in Some \<lparr> scheme = sch, username = [], password = [],
                              host = toLowerCase h, port = prt, path = pth,
                              query = qry, fragment = frag \<rparr>)))"

text \<open>A reference without a scheme, against the base: the relative state and the relative
  slash state of the parser. Two slashes lead to the authority.\<close>

definition base_segments :: "URL \<Rightarrow> string list" where
  "base_segments b = tl (split_on CHR ''/'' (path b))"

definition parse_relative :: "URL \<Rightarrow> string \<Rightarrow> URL option" where
  "parse_relative b input =
     (case input of
        [] \<Rightarrow> Some (b\<lparr>fragment := None\<rparr>)
      | c # cs \<Rightarrow>
          if is_slash c
          then (if cs \<noteq> [] \<and> is_slash (hd cs) then parse_authority (scheme b) cs
                else (let (pth, qry, frag) = parse_tail [] cs
                      in Some (b\<lparr>path := pth, query := qry, fragment := frag\<rparr>)))
          else if c = CHR ''?''
          then (let (before_hash, frag) = split_first (\<lambda>c. c = CHR ''#'') cs
                in Some (b\<lparr>query := Some (encode_query before_hash),
                           fragment := map_option encode_fragment frag\<rparr>))
          else if c = CHR ''#''
          then Some (b\<lparr>fragment := Some (encode_fragment cs)\<rparr>)
          else (let (pth, qry, frag) = parse_tail (shorten (base_segments b)) input
                in Some (b\<lparr>path := pth, query := qry, fragment := frag\<rparr>)))"

text \<open>An input with a scheme, \<open>r\<close> being what follows the colon. With a base of the same
  scheme and no two slashes the rest is a relative reference; otherwise the authority
  follows.\<close>

definition parse_with_scheme :: "URL option \<Rightarrow> string \<Rightarrow> string \<Rightarrow> URL option" where
  "parse_with_scheme base sch r =
     (if sch \<noteq> ''http'' \<and> sch \<noteq> ''https'' then None
      else (case base of
              None \<Rightarrow> parse_authority sch r
            | Some b \<Rightarrow>
                if scheme b = sch \<and> \<not> startsWith r ''//'' then parse_relative b r
                else parse_authority sch r))"

text \<open>The basic URL parser, with or without a base: without one, an input that has no
  scheme is failure.\<close>

definition basic_URL_parse :: "URL option \<Rightarrow> string \<Rightarrow> URL option" where
  "basic_URL_parse base s =
     (let input = url_preprocess s
      in case split_scheme input of
           Some (sch, r) \<Rightarrow> parse_with_scheme base sch r
         | None \<Rightarrow> (case base of None \<Rightarrow> None | Some b \<Rightarrow> parse_relative b input))"

text \<open>\<open>new URL(url, base)\<close> with a base that is given: the base is parsed first, on its
  own, and the constructor throws when that fails.\<close>

definition std_URL_new :: "string \<Rightarrow> string \<Rightarrow> URL option" where
  "std_URL_new url base =
     (case basic_URL_parse None base of
        None \<Rightarrow> None
      | Some b \<Rightarrow> basic_URL_parse (Some b) url)"

subsection \<open>URLSearchParams: the urlencoded parser and serializer\<close>

definition hex_value :: "char \<Rightarrow> nat option" where
  "hex_value c =
     (let n = (of_char c :: nat)
      in if is_digit c then Some (n - 48)
         else if 65 \<le> n \<and> n \<le> 70 then Some (n - 55)
         else if 97 \<le> n \<and> n \<le> 102 then Some (n - 87)
         else None)"

fun percent_decode :: "string \<Rightarrow> string" where
  "percent_decode [] = []"
| "percent_decode [c] = [c]"
| "percent_decode [c, d] = [c, d]"
| "percent_decode (c # h # l # r) =
     (if c = CHR ''%''
      then (case (hex_value h, hex_value l) of
              (Some a, Some b) \<Rightarrow> char_of (16 * a + b) # percent_decode r
            | _ \<Rightarrow> c # percent_decode (h # l # r))
      else c # percent_decode (h # l # r))"

definition plus_to_space :: "string \<Rightarrow> string" where
  "plus_to_space s = map (\<lambda>c. if c = CHR ''+'' then CHR '' '' else c) s"

definition std_urlencoded_parse :: "string \<Rightarrow> (string \<times> string) list" where
  "std_urlencoded_parse input =
     map (\<lambda>sq. (let (n, v) = split_first (\<lambda>c. c = CHR ''='') sq
                 in (percent_decode (plus_to_space n),
                     percent_decode (plus_to_space (case v of None \<Rightarrow> [] | Some x \<Rightarrow> x)))))
         (filter (\<lambda>sq. sq \<noteq> []) (split_on CHR ''&'' input))"

definition urlencoded_char :: "char \<Rightarrow> string" where
  "urlencoded_char c =
     (if c = CHR '' '' then ''+''
      else utf8_percent_encode (\<lambda>c. \<not> urlencoded_keep c) c)"

definition std_urlencoded_serialize :: "(string \<times> string) list \<Rightarrow> string" where
  "std_urlencoded_serialize ps =
     join ''&'' (map (\<lambda>p. concat (map urlencoded_char (fst p)) @ ''=''
                           @ concat (map urlencoded_char (snd p))) ps)"

subsection \<open>Regular expressions\<close>

text \<open>A matcher by derivatives for the expressions of the default configuration. With
  the \<open>i\<close> flag characters are compared without case; \<open>Dot\<close> is \<open>.\<close>, which matches no line
  terminator; \<open>Any\<close> matches every character.\<close>

datatype rx = Nothing | Eps | Ch char | Dot | Any | Digit | Seq rx rx | Alt rx rx | Star rx

fun nullable :: "rx \<Rightarrow> bool" where
  "nullable Nothing = False"
| "nullable Eps = True"
| "nullable (Ch c) = False"
| "nullable Dot = False"
| "nullable Any = False"
| "nullable Digit = False"
| "nullable (Seq r s) = (nullable r \<and> nullable s)"
| "nullable (Alt r s) = (nullable r \<or> nullable s)"
| "nullable (Star r) = True"

definition seq_s :: "rx \<Rightarrow> rx \<Rightarrow> rx" where
  "seq_s r s =
     (if r = Nothing \<or> s = Nothing then Nothing
      else if r = Eps then s
      else if s = Eps then r
      else Seq r s)"

definition alt_s :: "rx \<Rightarrow> rx \<Rightarrow> rx" where
  "alt_s r s = (if r = Nothing then s else if s = Nothing \<or> r = s then r else Alt r s)"

fun deriv :: "char \<Rightarrow> rx \<Rightarrow> rx" where
  "deriv c Nothing = Nothing"
| "deriv c Eps = Nothing"
| "deriv c (Ch d) = (if lower_char c = lower_char d then Eps else Nothing)"
| "deriv c Dot = (if (of_char c :: nat) = 10 \<or> (of_char c :: nat) = 13 then Nothing else Eps)"
| "deriv c Any = Eps"
| "deriv c Digit = (if is_digit c then Eps else Nothing)"
| "deriv c (Seq r s) =
     (if nullable r then alt_s (seq_s (deriv c r) s) (deriv c s) else seq_s (deriv c r) s)"
| "deriv c (Alt r s) = alt_s (deriv c r) (deriv c s)"
| "deriv c (Star r) = seq_s (deriv c r) (Star r)"

definition rx_matches :: "rx \<Rightarrow> string \<Rightarrow> bool" where
  "rx_matches r s = nullable (foldl (\<lambda>r c. deriv c r) r s)"

text \<open>A compiled expression: its body, and whether it starts with \<open>^\<close> and ends with \<open>$\<close>.
  \<open>test\<close> looks for a match anywhere in the subject.\<close>

record compiled =
  anchored_start :: bool
  body :: rx
  anchored_end :: bool

definition rx_test :: "compiled \<Rightarrow> string \<Rightarrow> bool" where
  "rx_test p s =
     rx_matches (Seq (if anchored_start p then Eps else Star Any)
                     (Seq (body p) (if anchored_end p then Eps else Star Any))) s"

definition lit :: "string \<Rightarrow> rx" where
  "lit s = foldr (\<lambda>c r. Seq (Ch c) r) s Eps"

definition alts :: "string list \<Rightarrow> rx" where
  "alts ws = foldr (\<lambda>w r. Alt (lit w) r) ws Nothing"

text \<open>The include and exclude patterns of \<open>defaultConfig\<close>, compiled.\<close>

definition compile_default :: "string \<Rightarrow> compiled option" where
  "compile_default pattern =
     (if pattern = ''^/api/''
      then Some \<lparr>anchored_start = True, body = lit ''/api/'', anchored_end = False\<rparr>
      else if pattern = ''^https?://.*/(api|graphql|v[0-9]+)/''
      then Some \<lparr>anchored_start = True,
                  body = Seq (lit ''http'') (Seq (Alt Eps (Ch CHR ''s'')) (Seq (lit ''://'')
                           (Seq (Star Dot) (Seq (Ch CHR ''/'')
                              (Seq (Alt (lit ''api'') (Alt (lit ''graphql'')
                                      (Seq (Ch CHR ''v'') (Seq Digit (Star Digit)))))
                                   (Ch CHR ''/'')))))),
                  anchored_end = False\<rparr>
      else if pattern = static_asset_pattern
      then Some \<lparr>anchored_start = False,
                  body = Seq (Ch CHR ''.'')
                           (alts [''js'', ''css'', ''png'', ''jpg'', ''jpeg'', ''gif'', ''svg'',
                                  ''woff'', ''woff2'', ''ttf'', ''ico'']),
                  anchored_end = True\<rparr>
      else if pattern = ''^/static/''
      then Some \<lparr>anchored_start = True, body = lit ''/static/'', anchored_end = False\<rparr>
      else if pattern = ''^/assets/''
      then Some \<lparr>anchored_start = True, body = lit ''/assets/'', anchored_end = False\<rparr>
      else if pattern = ''^/_next/''
      then Some \<lparr>anchored_start = True, body = lit ''/_next/'', anchored_end = False\<rparr>
      else if pattern = ''^/__cypress/''
      then Some \<lparr>anchored_start = True, body = lit ''/__cypress/'', anchored_end = False\<rparr>
      else None)"

definition std_RegExp_test :: "string \<Rightarrow> string \<Rightarrow> bool option" where
  "std_RegExp_test pattern s = map_option (\<lambda>p. rx_test p s) (compile_default pattern)"

text \<open>The platform \<open>std\<close>. The PII expressions are not modelled (the PII option is off by
  default and no evaluation below turns it on): \<open>std\<close> leaves the text as it is.\<close>

definition std :: platform where
  "std = \<lparr>
     URL_new = std_URL_new,
     urlencoded_parse = std_urlencoded_parse,
     urlencoded_serialize = std_urlencoded_serialize,
     RegExp_test = std_RegExp_test,
     pii_replace = (\<lambda>pattern s replacement. s) \<rparr>"


section \<open>Example data\<close>

text \<open>A request for \<open>/posts\<close> with two query parameters, and the metadata of a mock
  recorded for one of them.\<close>

definition ex_request :: RequestSignature where
  "ex_request = \<lparr>
     sig_method = ''GET'',
     sig_url = ''/posts?userId=1&page=2'',
     normalizedUrl = ''/posts?page=2&userId=1'',
     queryParams = [(''userId'', ''1''), (''page'', ''2'')],
     sig_pathname = ''/posts'' \<rparr>"

definition ex_mock :: MockMetadata where
  "ex_mock = \<lparr>
     mm_method = ''get'',
     mm_url = ''/posts?userId=1'',
     mm_pathname = ''/posts'',
     mm_queryParams = Some [(''userId'', ''1'')] \<rparr>"

text \<open>A world in which nothing has happened, a backend that answers every request with
  the same response, and some requests.\<close>

definition empty_world :: world where
  "empty_world = \<lparr>
     isRecording = False, isReplaying = False,
     interceptedRequests = 0, recordedRequests = 0, replayedRequests = 0,
     mockCache = [], sessionMocks = [], files = [], task_log = [], backend_log = [] \<rparr>"

definition no_fallback_config :: MockConfig where
  "no_fallback_config = defaultConfig\<lparr>autoFallback := False\<rparr>"

definition ex_backend :: "request \<Rightarrow> response" where
  "ex_backend req = \<lparr>
     statusCode = 200,
     statusMessage = Some ''OK'',
     res_headers = Some [(''Content-Type'', Single ''application/json''),
                         (''Set-Cookie'', Single ''sid=s3cr3t'')],
     res_body = JArr [JObj [(''id'', JNum 1), (''userId'', JNum 1)]] \<rparr>"

definition ex_now :: string where
  "ex_now = ''2024-01-01T00:00:00.000Z''"

definition delete_request :: request where
  "delete_request = \<lparr>
     req_method = ''DELETE'', req_url = ''/posts/1'', req_headers = [], req_body = None \<rparr>"

definition users_request :: request where
  "users_request = \<lparr>
     req_method = ''GET'',
     req_url = ''/api/users'',
     req_headers = [(''Authorization'', Single ''Bearer abc123''),
                    (''Accept'', Single ''application/json'')],
     req_body = None \<rparr>"

text \<open>A recorded artifact for \<open>GET /posts\<close>, a world that has it in the cache, one that
  has it on disk, and the world after a miss for \<open>DELETE /posts/1\<close>.\<close>

definition ex_artifact :: RecordedMock where
  "ex_artifact = \<lparr>
     rm_method = ''GET'', rm_url = ''/posts'', rm_pathname = ''/posts'', rm_queryParams = [],
     rm_status = 200, rm_statusMessage = Some ''OK'',
     rm_requestHeaders = Some [], rm_responseHeaders = Some [],
     rm_requestBody = None, rm_response = JArr [],
     rm_responseTime = Some 12, rm_recordedAt = ex_now,
     rm_version = None, rm_metadata = None \<rparr>"

definition posts_signature :: RequestSignature where
  "posts_signature = createRequestSignature std ''GET'' ''/posts''"

definition cached_world :: world where
  "cached_world = empty_world\<lparr>mockCache := [(''GET:/posts'', ex_artifact)]\<rparr>"

definition stored_world :: world where
  "stored_world = empty_world\<lparr>files := [(''cypress/mocks/posts/get_posts.json'', Stored ex_artifact)]\<rparr>"

definition missed_world :: world where
  "missed_world = empty_world\<lparr>interceptedRequests := 1,
      task_log := [ReadMock_call ''cypress/mocks/posts/delete_posts_1.json'']\<rparr>"

text \<open>A request whose URL carries a token, as Cypress gives it (absolute) and as a
  relative URL.\<close>

definition login_request :: request where
  "login_request = \<lparr>
     req_method = ''GET'',
     req_url = ''https://example.com/api/login?token=abc123'',
     req_headers = [(''Accept'', Single ''application/json'')],
     req_body = None \<rparr>"

definition login_request_rel :: request where
  "login_request_rel = login_request\<lparr>req_url := ''/api/login?token=abc123''\<rparr>"

text \<open>The exchange as the pipeline \<open>sanitizeRecordedData\<close> takes it.\<close>

definition exchange_data :: "request \<Rightarrow> response \<Rightarrow> RecordedData" where
  "exchange_data req res = \<lparr>
     rd_url = req_url req,
     rd_requestHeaders = Some (req_headers req),
     rd_responseHeaders = res_headers res,
     rd_requestBody = req_body req,
     rd_responseBody = Some (res_body res) \<rparr>"

text \<open>The paths \<open>listMocks\<close> reports, the file behind a listed name, and the cache key
  \<open>preloadMocks\<close> gives an artifact.\<close>

definition artifact_path :: "MockConfig \<Rightarrow> world \<Rightarrow> string \<Rightarrow> bool" where
  "artifact_path config w p =
     (p \<in> set (obj_keys (files w)) \<and> startsWith p (mockDir config @ ''/'')
      \<and> endsWith p ''.json'')"

definition artifact_key :: "platform \<Rightarrow> RecordedMock \<Rightarrow> string" where
  "artifact_key pf m = cacheKey_of (createRequestSignature pf (rm_method m) (rm_url m))"

definition file_at :: "MockConfig \<Rightarrow> fs \<Rightarrow> string \<Rightarrow> mock_file option" where
  "file_at config fls f = obj_get fls (mockDir config @ ''/'' @ f)"

definition corrupt_world :: world where
  "corrupt_world = empty_world\<lparr>files :=
     [(''cypress/mocks/posts/get_posts.json'', Stored ex_artifact),
      (''cypress/mocks/users/get_users.json'', Corrupt)]\<rparr>"

text \<open>The URL object of \<open>/posts\<close> with a query, resolved against \<open>http://localhost\<close>.\<close>

definition posts_url :: "string \<Rightarrow> URL" where
  "posts_url q = \<lparr> scheme = ''http'', username = [], password = [], host = ''localhost'',
     port = None, path = ''/posts'', query = Some q, fragment = None \<rparr>"

text \<open>The data on which the placeholder pair is compared: a string that is not the
  sentinel and contains no tracked value and no token of the value map; a value whose
  objects have distinct keys and whose strings, outside the fields that are themselves a
  tracked value, are such strings; and a value map that has every pattern's value under
  its field.\<close>

definition plain_string :: "MockConfig \<Rightarrow> (string \<times> string) list \<Rightarrow> json obj \<Rightarrow> string \<Rightarrow> bool" where
  "plain_string config patterns values s =
     (s \<noteq> dynamicPlaceholder config
      \<and> list_all (\<lambda>p. \<not> str_includes s (snd p)) patterns
      \<and> list_all (\<lambda>kv. \<not> str_includes s (placeholder_token (fst kv))) values)"

fun untracked :: "MockConfig \<Rightarrow> (string \<times> string) list \<Rightarrow> json obj \<Rightarrow> json \<Rightarrow> bool" where
  "untracked config patterns values (JStr s) = plain_string config patterns values s"
| "untracked config patterns values (JArr items) =
     list_all (\<lambda>item. untracked config patterns values item) items"
| "untracked config patterns values (JObj kvs) =
     (distinct (map fst kvs)
      \<and> list_all (\<lambda>kv.
            (case find (\<lambda>p. fst p = fst kv) patterns of
               None \<Rightarrow> untracked config patterns values (snd kv)
             | Some matchingPattern \<Rightarrow>
                 snd kv = JStr (snd matchingPattern)
                 \<or> untracked config patterns values (snd kv))) kvs)"
| "untracked config patterns values data = True"

definition value_map_binds :: "(string \<times> string) list \<Rightarrow> json obj \<Rightarrow> bool" where
  "value_map_binds patterns values =
     list_all (\<lambda>p. obj_get values (fst p) = Some (JStr (snd p))) patterns"

text \<open>What the loops of the pair assign to one field.\<close>

definition apply_field :: "MockConfig \<Rightarrow> (string \<times> string) list \<Rightarrow> string \<times> json \<Rightarrow> json" where
  "apply_field config patterns kv =
     (case find (\<lambda>p. fst p = fst kv) patterns of
        None \<Rightarrow> applyDynamicPlaceholders config (snd kv) patterns
      | Some matchingPattern \<Rightarrow>
          if snd kv = JStr (snd matchingPattern) then JStr (dynamicPlaceholder config)
          else applyDynamicPlaceholders config (snd kv) patterns)"

definition resolve_field :: "MockConfig \<Rightarrow> json obj \<Rightarrow> string \<times> json \<Rightarrow> json" where
  "resolve_field config values kv =
     (case obj_get values (fst kv) of
        Some v \<Rightarrow> if snd kv = JStr (dynamicPlaceholder config) then v
                  else resolveDynamicPlaceholders config (snd kv) values
      | None \<Rightarrow> resolveDynamicPlaceholders config (snd kv) values)"

definition ex_patterns :: "(string \<times> string) list" where
  "ex_patterns = [(''id'', ''42'')]"

definition ex_values :: "json obj" where
  "ex_values = [(''id'', JStr ''42'')]"

definition ex_post :: json where
  "ex_post = JObj [(''id'', JStr ''42''), (''title'', JStr ''hello''),
                   (''tags'', JArr [JStr ''a'', JNum 7])]"

text \<open>The URLs of the artifacts in the mock directory after a handler has run.\<close>

definition persisted_urls :: "js_error + (world \<times> response) \<Rightarrow> string list" where
  "persisted_urls result =
     (case result of
        Inl e \<Rightarrow> []
      | Inr (w, res) \<Rightarrow>
          concat (map (\<lambda>pf. case snd pf of Stored m \<Rightarrow> [rm_url m] | Corrupt \<Rightarrow> []) (files w)))"

text \<open>A name of the configured sanitize list, whatever its case.\<close>

definition sanitized_name :: "MockConfig \<Rightarrow> string \<Rightarrow> bool" where
  "sanitized_name config k =
     list_ex (\<lambda>h. toLowerCase k = toLowerCase h) (sanitizeHeaders_list config)"

definition only_masked :: "MockConfig \<Rightarrow> headers \<Rightarrow> bool" where
  "only_masked config hs =
     list_all (\<lambda>kv. sanitized_name config (fst kv) \<longrightarrow> snd kv = Single REMOVED) hs"


section \<open>Properties of the matcher\<close>

subsection \<open>Matching a request against mock metadata\<close>

text \<open>
  Claim C10. \<open>matchRequest\<close> is true exactly when the methods are equal without regard to
  case, the pathnames are equal, and every pair of the mock's \<open>queryParams\<close> has the same
  value in the request's \<open>queryParams\<close>. Only the mock's pairs are looked at, so further
  parameters of the request do not matter, and a mock without \<open>queryParams\<close>, or with none,
  matches any query.
\<close>

theorem matchRequest_iff:
  "(matchRequest request mock \<longleftrightarrow>
      toUpperCase (sig_method request) = toUpperCase (mm_method mock)
    \<and> sig_pathname request = mm_pathname mock
    \<and> (\<forall>mq. mm_queryParams mock = Some mq \<longrightarrow>
          (\<forall>(key, value) \<in> set mq. obj_get (queryParams request) key = Some value)))
   \<and> ((mm_queryParams mock = None \<or> mm_queryParams mock = Some []) \<longrightarrow>
        (matchRequest request mock \<longleftrightarrow>
           toUpperCase (sig_method request) = toUpperCase (mm_method mock)
         \<and> sig_pathname request = mm_pathname mock))"
  by (cases "mm_queryParams mock")
     (auto simp: matchRequest_def obj_keys_def list_all_iff)

theorem matchRequest_iff_witness:
  "matchRequest ex_request ex_mock
   \<and> mm_queryParams ex_mock = Some [(''userId'', ''1'')]
   \<and> obj_get (queryParams ex_request) ''userId'' = Some ''1''"
proof -
  have m: "toUpperCase ''GET'' = toUpperCase ''get''"
    by code_simp
  show ?thesis
    using matchRequest_iff [of ex_request ex_mock] m
    by (simp add: ex_request_def ex_mock_def obj_get_def)
qed

subsection \<open>The record filter\<close>

lemma first_match_valid:
  "\<forall>p \<in> set ps. RegExp_test pf p url \<noteq> None \<Longrightarrow>
   first_match pf ps url = Inr (\<exists>p \<in> set ps. RegExp_test pf p url = Some True)"
  by (induction ps) (auto split: option.splits bool.splits)

text \<open>
  Claim C4. When the configured patterns are regular expressions, \<open>shouldRecordUrl\<close>
  answers false as soon as an exclude pattern matches, whatever the include patterns say,
  and true otherwise: when an include pattern matches and also when no pattern of either
  list matches.
\<close>

theorem shouldRecordUrl_policy:
  assumes "\<forall>p \<in> set (excludePatterns config @ includePatterns config).
             RegExp_test pf p url \<noteq> None"
  shows "((\<exists>p \<in> set (excludePatterns config). RegExp_test pf p url = Some True) \<longrightarrow>
            shouldRecordUrl pf config url = Inr False)
       \<and> ((\<forall>p \<in> set (excludePatterns config). RegExp_test pf p url \<noteq> Some True)
            \<and> (\<exists>p \<in> set (includePatterns config). RegExp_test pf p url = Some True) \<longrightarrow>
            shouldRecordUrl pf config url = Inr True)
       \<and> ((\<forall>p \<in> set (excludePatterns config @ includePatterns config).
              RegExp_test pf p url \<noteq> Some True) \<longrightarrow>
            shouldRecordUrl pf config url = Inr True)"
proof -
  from assms have ex: "\<forall>p \<in> set (excludePatterns config). RegExp_test pf p url \<noteq> None"
    and inc: "\<forall>p \<in> set (includePatterns config). RegExp_test pf p url \<noteq> None"
    by auto
  show ?thesis
    unfolding shouldRecordUrl_def first_match_valid [OF ex] first_match_valid [OF inc]
    by (auto split: bool.splits)
qed


lemma default_patterns_valid:
  "\<forall>p \<in> set (excludePatterns defaultConfig @ includePatterns defaultConfig).
     RegExp_test std p url \<noteq> None"
  by (simp add: defaultConfig_def std_def std_RegExp_test_def compile_default_def)

theorem shouldRecordUrl_policy_witness:
  "list_all (\<lambda>p. RegExp_test std p ''/api/logo.png'' \<noteq> None)
     (excludePatterns defaultConfig @ includePatterns defaultConfig)
   \<and> RegExp_test std static_asset_pattern ''/api/logo.png'' = Some True
   \<and> RegExp_test std ''^/api/'' ''/api/logo.png'' = Some True
   \<and> shouldRecordUrl std defaultConfig ''/api/logo.png'' = Inr False
   \<and> shouldRecordUrl std defaultConfig ''/api/users'' = Inr True
   \<and> shouldRecordUrl std defaultConfig ''/home'' = Inr True"
proof -
  have e: "static_asset_pattern \<in> set (excludePatterns defaultConfig)"
    and i: "''^/api/'' \<in> set (includePatterns defaultConfig)"
    by (simp_all add: defaultConfig_def)
  have m1: "RegExp_test std static_asset_pattern ''/api/logo.png'' = Some True"
    by code_simp
  have m2: "RegExp_test std ''^/api/'' ''/api/logo.png'' = Some True"
    by code_simp
  have m3: "RegExp_test std ''^/api/'' ''/api/users'' = Some True"
    by code_simp
  have n1: "list_all (\<lambda>p. RegExp_test std p ''/api/users'' \<noteq> Some True)
              (excludePatterns defaultConfig)"
    by code_simp
  have n2: "list_all (\<lambda>p. RegExp_test std p ''/home'' \<noteq> Some True)
              (excludePatterns defaultConfig @ includePatterns defaultConfig)"
    by code_simp
  have r1: "shouldRecordUrl std defaultConfig ''/api/logo.png'' = Inr False"
    using shouldRecordUrl_policy [OF default_patterns_valid, of "''/api/logo.png''"] e m1
    by blast
  have r2: "shouldRecordUrl std defaultConfig ''/api/users'' = Inr True"
    using shouldRecordUrl_policy [OF default_patterns_valid, of "''/api/users''"] i m3 n1
    unfolding list_all_iff by blast
  have r3: "shouldRecordUrl std defaultConfig ''/home'' = Inr True"
    using shouldRecordUrl_policy [OF default_patterns_valid, of "''/home''"] n2
    unfolding list_all_iff by blast
  show ?thesis
    using default_patterns_valid [of "''/api/logo.png''"] m1 m2 r1 r2 r3
    unfolding list_all_iff by blast
qed


subsection \<open>Normalization fails open\<close>

text \<open>
  Claim C7, as the code has it. When the \<open>URL\<close> constructor throws on the input,
  \<open>normalizeUrl\<close> returns the input unchanged; it has no other way to fail, since its
  whole body is inside \<open>try\<close>. The constructor throws, for instance, on a reference
  without a host (\<open>//\<close>) or with a port that is not a number.
\<close>

theorem normalizeUrl_fail_open:
  "URL_new pf url (baseUrl url) = None \<Longrightarrow> normalizeUrl pf url = url"
  by (simp add: normalizeUrl_def)

theorem normalizeUrl_fail_open_witness:
  "URL_new std ''//'' (baseUrl ''//'') = None
   \<and> normalizeUrl std ''//'' = ''//''
   \<and> URL_new std ''//api:port/users'' (baseUrl ''//api:port/users'') = None
   \<and> normalizeUrl std ''//api:port/users'' = ''//api:port/users''"
proof -
  have h1: "URL_new std ''//'' (baseUrl ''//'') = None"
    and h2: "URL_new std ''//api:port/users'' (baseUrl ''//api:port/users'') = None"
    by code_simp+
  show ?thesis
    using h1 h2 normalizeUrl_fail_open [OF h1] normalizeUrl_fail_open [OF h2] by simp
qed

text \<open>
  The input \<open>not a url\<close> of claim C7 is not one the constructor throws on: it does not
  start with \<open>http\<close>, so it is resolved against \<open>http://localhost\<close> as a relative path, and
  the result is that path with its spaces percent-encoded.
\<close>

theorem normalizeUrl_not_a_url:
  "URL_new std ''not a url'' (baseUrl ''not a url'') \<noteq> None
   \<and> normalizeUrl std ''not a url'' = ''/not%20a%20url''
   \<and> normalizeUrl std ''not a url'' \<noteq> ''not a url''"
  by code_simp

subsection \<open>Query-order invariance\<close>

lemma URLSearchParams_new_search:
  "URLSearchParams_new pf (search u) = searchParams pf u"
  by (cases "query u") (auto simp: URLSearchParams_new_def search_def searchParams_def)

lemma sort_key_permutation:
  fixes f :: "'a \<Rightarrow> 'b::linorder"
  assumes m: "mset xs = mset ys" and d: "distinct (map f xs)"
  shows "sort_key f xs = sort_key f ys"
proof -
  have s: "set xs = set ys"
    using m by (rule mset_eq_setD)
  have "mset (map f xs) = mset (map f ys)"
    using m by (metis mset_map)
  with d have d': "distinct (map f ys)"
    by (metis mset_eq_imp_distinct_iff)
  have inj: "inj_on f (set xs)"
    using d by (simp add: distinct_map)
  have "map f (sort_key f xs) = map f (sort_key f ys)"
  proof (rule sorted_distinct_set_unique)
    show "sorted (map f (sort_key f xs))" and "sorted (map f (sort_key f ys))"
      by (rule sorted_sort_key)+
    show "distinct (map f (sort_key f xs))"
      using d by (simp add: distinct_map)
    show "distinct (map f (sort_key f ys))"
      using d' by (simp add: distinct_map)
    show "set (map f (sort_key f xs)) = set (map f (sort_key f ys))"
      using s by simp
  qed
  moreover have "inj_on f (set (sort_key f xs) \<union> set (sort_key f ys))"
    using inj s by simp
  ultimately show ?thesis
    by (simp add: inj_on_map_eq_map)
qed

lemma obj_set_fresh: "k \<notin> fst ` set acc \<Longrightarrow> obj_set acc k v = acc @ [(k, v)]"
  by (induction acc) auto

lemma foldl_obj_set_distinct:
  "distinct (map fst es) \<Longrightarrow> fst ` set acc \<inter> fst ` set es = {} \<Longrightarrow>
   foldl (\<lambda>params (key, value). obj_set params key value) acc es = acc @ es"
proof (induction es arbitrary: acc)
  case Nil
  then show ?case by simp
next
  case (Cons e es)
  obtain k v where e: "e = (k, v)" by (cases e)
  from Cons.prems e have fresh: "k \<notin> fst ` set acc" by auto
  have "fst ` set (acc @ [(k, v)]) \<inter> fst ` set es = {}"
    using Cons.prems e by auto
  with Cons.IH [of "acc @ [(k, v)]"] Cons.prems(1) e fresh show ?case
    by (simp add: obj_set_fresh)
qed

lemma queryString_of_permutation:
  assumes m: "mset es1 = mset es2" and d: "distinct (map fst es1)"
  shows "queryString_of es1 = queryString_of es2"
proof -
  have "mset (map fst es1) = mset (map fst es2)"
    using m by (metis mset_map)
  with d have d2: "distinct (map fst es2)"
    by (metis mset_eq_imp_distinct_iff)
  have "sort_key (\<lambda>k. k) (map fst es1) = sort_key (\<lambda>k. k) (map fst es2)"
    using \<open>mset (map fst es1) = mset (map fst es2)\<close> d
    by (intro sort_key_permutation) simp_all
  moreover have "map_of es1 = map_of es2"
    using d d2 mset_eq_setD [OF m] by (simp add: map_of_inject_set)
  ultimately show ?thesis
    by (simp add: queryString_of_def sort_strings_def obj_keys_def obj_get_def)
qed

text \<open>
  Where the constructor parses the URL, the order of the query does not matter: two such
  URLs with the same origin and pathname, whose query parameters are a reordering of each
  other, normalize to the same URL and give the same mock filename, when the parameter
  names are pairwise distinct and so are the texts \<open>key,value\<close> by which \<open>sort()\<close> orders
  the entries.
\<close>

theorem query_order_invariance:
  assumes p1: "URL_new pf u1 (baseUrl u1) = Some o1"
      and p2: "URL_new pf u2 (baseUrl u2) = Some o2"
      and h: "startsWith u1 ''http'' = startsWith u2 ''http''"
      and og: "origin o1 = origin o2"
      and pn: "pathname o1 = pathname o2"
      and m: "mset (searchParams pf o1) = mset (searchParams pf o2)"
      and dk: "distinct (map fst (searchParams pf o1))"
      and ds: "distinct (map entry_toString (searchParams pf o1))"
  shows "normalizeUrl pf u1 = normalizeUrl pf u2
       \<and> generateMockFilename (createRequestSignature pf method u1)
           = generateMockFilename (createRequestSignature pf method u2)"
proof
  have "sort_entries (searchParams pf o1) = sort_entries (searchParams pf o2)"
    unfolding sort_entries_def using m ds by (rule sort_key_permutation)
  then show "normalizeUrl pf u1 = normalizeUrl pf u2"
    using p1 p2 h og pn
    by (simp add: normalizeUrl_def Let_def URLSearchParams_new_search)
next
  have "mset (map fst (searchParams pf o1)) = mset (map fst (searchParams pf o2))"
    using m by (metis mset_map)
  with dk have dk2: "distinct (map fst (searchParams pf o2))"
    by (metis mset_eq_imp_distinct_iff)
  have q1: "extractQueryParams pf u1 = searchParams pf o1"
    using p1 foldl_obj_set_distinct [OF dk, of "[]"] by (simp add: extractQueryParams_def)
  have q2: "extractQueryParams pf u2 = searchParams pf o2"
    using p2 foldl_obj_set_distinct [OF dk2, of "[]"] by (simp add: extractQueryParams_def)
  have "queryString_of (extractQueryParams pf u1) = queryString_of (extractQueryParams pf u2)"
    unfolding q1 q2 using m dk by (rule queryString_of_permutation)
  moreover have "extractPathname pf u1 = extractPathname pf u2"
    using p1 p2 pn by (simp add: extractPathname_def)
  ultimately show "generateMockFilename (createRequestSignature pf method u1)
           = generateMockFilename (createRequestSignature pf method u2)"
    by (simp add: generateMockFilename_def createRequestSignature_def Let_def)
qed

theorem query_order_invariance_witness:
  "URL_new std ''/posts?b=2&a=1'' (baseUrl ''/posts?b=2&a=1'') = Some (posts_url ''b=2&a=1'')
   \<and> URL_new std ''/posts?a=1&b=2'' (baseUrl ''/posts?a=1&b=2'') = Some (posts_url ''a=1&b=2'')
   \<and> searchParams std (posts_url ''b=2&a=1'') = [(''b'', ''2''), (''a'', ''1'')]
   \<and> searchParams std (posts_url ''a=1&b=2'') = [(''a'', ''1''), (''b'', ''2'')]
   \<and> normalizeUrl std ''/posts?b=2&a=1'' = ''/posts?a=1&b=2''
   \<and> normalizeUrl std ''/posts?a=1&b=2'' = ''/posts?a=1&b=2''
   \<and> generateMockFilename (createRequestSignature std ''GET'' ''/posts?b=2&a=1'')
       = ''get_posts_wrnmx2.json''
   \<and> generateMockFilename (createRequestSignature std ''GET'' ''/posts?a=1&b=2'')
       = ''get_posts_wrnmx2.json''"
proof -
  have p1: "URL_new std ''/posts?b=2&a=1'' (baseUrl ''/posts?b=2&a=1'') = Some (posts_url ''b=2&a=1'')"
    and p2: "URL_new std ''/posts?a=1&b=2'' (baseUrl ''/posts?a=1&b=2'') = Some (posts_url ''a=1&b=2'')"
    by code_simp+
  have s1: "searchParams std (posts_url ''b=2&a=1'') = [(''b'', ''2''), (''a'', ''1'')]"
    and s2: "searchParams std (posts_url ''a=1&b=2'') = [(''a'', ''1''), (''b'', ''2'')]"
    by code_simp+
  have h: "startsWith ''/posts?b=2&a=1'' ''http'' = startsWith ''/posts?a=1&b=2'' ''http''"
    by (simp add: startsWith_def)
  have og: "origin (posts_url ''b=2&a=1'') = origin (posts_url ''a=1&b=2'')"
    and pn: "pathname (posts_url ''b=2&a=1'') = pathname (posts_url ''a=1&b=2'')"
    by (simp_all add: origin_def pathname_def posts_url_def host_port_def)
  have m: "mset (searchParams std (posts_url ''b=2&a=1'')) = mset (searchParams std (posts_url ''a=1&b=2''))"
    unfolding s1 s2 by (simp add: add.commute)
  have dk: "distinct (map fst (searchParams std (posts_url ''b=2&a=1'')))"
    and ds: "distinct (map entry_toString (searchParams std (posts_url ''b=2&a=1'')))"
    unfolding s1 by (simp_all add: entry_toString_def)
  have n: "normalizeUrl std ''/posts?a=1&b=2'' = ''/posts?a=1&b=2''"
    and f: "generateMockFilename (createRequestSignature std ''GET'' ''/posts?a=1&b=2'')
       = ''get_posts_wrnmx2.json''"
    by code_simp+
  show ?thesis
    using query_order_invariance [OF p1 p2 h og pn m dk ds, of "''GET''"] p1 p2 s1 s2 n f
    by simp
qed

text \<open>
  Both conditions are needed. With a repeated name, \<open>queryParams\<close> keeps the last value,
  so the filename depends on the order although the normalized URLs agree. Two entries
  with the same text \<open>key,value\<close> (here \<open>a,b\<close> with \<open>c\<close> and \<open>a\<close> with \<open>b,c\<close>) compare equal
  under \<open>sort()\<close>, which is stable, so they stay in input order.
\<close>

theorem query_order_duplicates_and_commas:
  "normalizeUrl std ''/posts?a=1&a=2'' = normalizeUrl std ''/posts?a=2&a=1''
   \<and> generateMockFilename (createRequestSignature std ''GET'' ''/posts?a=1&a=2'')
       = ''get_posts_21fa.json''
   \<and> generateMockFilename (createRequestSignature std ''GET'' ''/posts?a=2&a=1'')
       = ''get_posts_21f9.json''
   \<and> generateMockFilename (createRequestSignature std ''GET'' ''/posts?a=1&a=2'')
       \<noteq> generateMockFilename (createRequestSignature std ''GET'' ''/posts?a=2&a=1'')
   \<and> normalizeUrl std ''/p?a,b=c&a=b,c'' = ''/p?a%2Cb=c&a=b%2Cc''
   \<and> normalizeUrl std ''/p?a=b,c&a,b=c'' = ''/p?a=b%2Cc&a%2Cb=c''
   \<and> normalizeUrl std ''/p?a,b=c&a=b,c'' \<noteq> normalizeUrl std ''/p?a=b,c&a,b=c''"
  by code_simp

text \<open>
  An absolute URL starts with \<open>http\<close>, so the base passed to the constructor is the empty
  string. The constructor parses a base that is given, the empty string is not a URL, and
  it throws. Every function of the matcher then takes its \<open>catch\<close> branch, and the branch
  of \<open>normalizeUrl\<close> that returns origin, pathname and sorted query is never reached.
\<close>

lemma std_rejects_empty_base: "URL_new std url [] = None"
  by (simp add: std_def std_URL_new_def basic_URL_parse_def url_preprocess_def
        split_scheme_def)

lemma absolute_urls_take_catch_branch:
  assumes "startsWith url ''http''"
  shows "normalizeUrl std url = url"
    and "extractQueryParams std url = []"
    and "extractPathname std url = hd (split_on CHR ''?'' url)"
  using assms
  by (simp_all add: normalizeUrl_def extractQueryParams_def extractPathname_def baseUrl_def
        std_rejects_empty_base)

text \<open>
  Claim C3. The URL of an intercepted request is absolute. For the request of the
  walkthrough, \<open>GET https://api.example.com/users?sort=desc&page=1\<close>, and the same request
  with its parameters in the other order, \<open>normalizeUrl\<close> returns each URL as it is, so
  the normalized URLs differ, and with them the cache keys. The signature has no query
  parameters and, as its pathname, the URL up to the question mark: the filename carries
  no hash and is the same for every query. The walkthrough gives the pathname \<open>/users\<close>
  and a filename with the hash of the query for this request, which is what the code does
  for the relative URL: there both orders normalize to \<open>/users?page=1&sort=desc\<close> and
  share the filename \<open>get_users_kvx48d.json\<close>.
\<close>

theorem absolute_urls_keep_query_order:
  "normalizeUrl std ''https://api.example.com/users?sort=desc&page=1''
     = ''https://api.example.com/users?sort=desc&page=1''
   \<and> normalizeUrl std ''https://api.example.com/users?page=1&sort=desc''
     = ''https://api.example.com/users?page=1&sort=desc''
   \<and> cacheKey_of (createRequestSignature std ''GET'' ''https://api.example.com/users?sort=desc&page=1'')
     = ''GET:https://api.example.com/users?sort=desc&page=1''
   \<and> cacheKey_of (createRequestSignature std ''GET'' ''https://api.example.com/users?page=1&sort=desc'')
     = ''GET:https://api.example.com/users?page=1&sort=desc''
   \<and> createRequestSignature std ''GET'' ''https://api.example.com/users?sort=desc&page=1''
     = \<lparr> sig_method = ''GET'',
         sig_url = ''https://api.example.com/users?sort=desc&page=1'',
         normalizedUrl = ''https://api.example.com/users?sort=desc&page=1'',
         queryParams = [],
         sig_pathname = ''https://api.example.com/users'' \<rparr>
   \<and> generateMockFilename
         (createRequestSignature std ''GET'' ''https://api.example.com/users?sort=desc&page=1'')
     = ''get_https__apiexamplecom_users.json''
   \<and> generateMockFilename
         (createRequestSignature std ''GET'' ''https://api.example.com/users?page=2'')
     = ''get_https__apiexamplecom_users.json''
   \<and> normalizeUrl std ''/users?sort=desc&page=1'' = ''/users?page=1&sort=desc''
   \<and> normalizeUrl std ''/users?page=1&sort=desc'' = ''/users?page=1&sort=desc''
   \<and> generateMockFilename (createRequestSignature std ''GET'' ''/users?sort=desc&page=1'')
     = ''get_users_kvx48d.json''
   \<and> generateMockFilename (createRequestSignature std ''GET'' ''/users?page=1&sort=desc'')
     = ''get_users_kvx48d.json''"
  by code_simp

section \<open>Properties of the storage\<close>

lemma obj_get_obj_set:
  "obj_get (obj_set kvs k v) k' = (if k' = k then Some v else obj_get kvs k')"
  by (induction kvs) (auto simp: obj_get_def)

lemma set_obj_set: "set (obj_set kvs k v) \<subseteq> insert (k, v) (set kvs)"
  by (induction kvs) (auto split: if_splits)

text \<open>
  Claim C6. \<open>loadMock\<close> looks in the cache under the key \<open>METHOD:normalizedUrl\<close> first. On
  a hit it returns the cached artifact and the world is unchanged, so no storage task was
  called. On a miss it calls \<open>readMock\<close> once; an artifact that is found is in the cache
  under that key when \<open>loadMock\<close> returns, and an absent file gives \<open>null\<close>, not an error.
\<close>

theorem loadMock_cache_aside:
  "cacheKey_of signature = sig_method signature @ '':'' @ normalizedUrl signature
   \<and> (obj_get (mockCache w) (cacheKey_of signature) = Some cached \<longrightarrow>
        loadMock config w signature = Inr (w, Some cached))
   \<and> (obj_get (mockCache w) (cacheKey_of signature) = None
        \<and> readMock (files w) (generateMockPath config signature) = Inr (Some m) \<longrightarrow>
        (\<exists>w'. loadMock config w signature = Inr (w', Some m)
           \<and> obj_get (mockCache w') (cacheKey_of signature) = Some m
           \<and> task_log w' = task_log w @ [ReadMock_call (generateMockPath config signature)]))
   \<and> (obj_get (mockCache w) (cacheKey_of signature) = None
        \<and> obj_get (files w) (generateMockPath config signature) = None \<longrightarrow>
        loadMock config w signature
          = Inr (w\<lparr>task_log := task_log w @ [ReadMock_call (generateMockPath config signature)]\<rparr>,
                 None))"
  by (auto simp: loadMock_def Let_def cacheKey_of_def readMock_def obj_get_obj_set)


theorem loadMock_cache_aside_witness:
  "obj_get (mockCache cached_world) (cacheKey_of posts_signature) = Some ex_artifact
   \<and> loadMock defaultConfig cached_world posts_signature = Inr (cached_world, Some ex_artifact)
   \<and> obj_get (mockCache stored_world) (cacheKey_of posts_signature) = None
   \<and> readMock (files stored_world) (generateMockPath defaultConfig posts_signature)
       = Inr (Some ex_artifact)
   \<and> (\<exists>w'. loadMock defaultConfig stored_world posts_signature = Inr (w', Some ex_artifact)
          \<and> obj_get (mockCache w') ''GET:/posts'' = Some ex_artifact
          \<and> task_log w' = [ReadMock_call ''cypress/mocks/posts/get_posts.json''])
   \<and> obj_get (files empty_world) (generateMockPath defaultConfig posts_signature) = None
   \<and> loadMock defaultConfig empty_world posts_signature
       = Inr (empty_world\<lparr>task_log := [ReadMock_call ''cypress/mocks/posts/get_posts.json'']\<rparr>,
              None)"
proof -
  have k: "cacheKey_of posts_signature = ''GET:/posts''"
    and p: "generateMockPath defaultConfig posts_signature = ''cypress/mocks/posts/get_posts.json''"
    by code_simp+
  have h1: "obj_get (mockCache cached_world) (cacheKey_of posts_signature) = Some ex_artifact"
    and h2: "obj_get (mockCache stored_world) (cacheKey_of posts_signature) = None"
    and h3: "readMock (files stored_world) (generateMockPath defaultConfig posts_signature)
               = Inr (Some ex_artifact)"
    and h4: "obj_get (mockCache empty_world) (cacheKey_of posts_signature) = None"
    and h5: "obj_get (files empty_world) (generateMockPath defaultConfig posts_signature) = None"
    and t1: "task_log stored_world = []" and t2: "task_log empty_world = []"
    by (simp_all add: k p cached_world_def stored_world_def empty_world_def obj_get_def readMock_def)
  show ?thesis
    using loadMock_cache_aside [of posts_signature cached_world ex_artifact defaultConfig]
          loadMock_cache_aside [of posts_signature stored_world _ defaultConfig ex_artifact]
          loadMock_cache_aside [of posts_signature empty_world _ defaultConfig]
          h1 h2 h3 h4 h5
    by (simp add: k p t1 t2)
qed

section \<open>Properties of the recorder\<close>

subsection \<open>Replaying without a mock and without fallback\<close>

text \<open>
  Claim C5. In replay mode, when the request passes the record filter, no artifact loads
  (the cache has none under the request's key and \<open>readMock\<close> returns \<open>null\<close>) and
  auto-fallback is off, the handler replies with status 500 and a body whose \<open>error\<close>
  field says that the mock was not found and whose \<open>message\<close> names the method and the
  URL. The world changes by the intercepted counter and the one \<open>readMock\<close> call only: the
  log of backend calls is as it was.
\<close>

theorem replay_miss_without_fallback:
  assumes "shouldRecordUrl pf config (req_url req) = Inr True"
      and "obj_get (mockCache w)
             (cacheKey_of (createRequestSignature pf (req_method req) (req_url req))) = None"
      and "readMock (files w)
             (generateMockPath config (createRequestSignature pf (req_method req) (req_url req)))
           = Inr None"
      and "\<not> autoFallback config"
  shows "setupReplayMode pf config backend responseTime now w req
           = Inr (w\<lparr>interceptedRequests := interceptedRequests w + 1,
                     task_log := task_log w @
                       [ReadMock_call (generateMockPath config
                          (createRequestSignature pf (req_method req) (req_url req)))]\<rparr>,
                  mock_not_found req)
       \<and> statusCode (mock_not_found req) = 500
       \<and> (\<exists>fields. res_body (mock_not_found req) = JObj fields
             \<and> obj_get fields ''error'' = Some (JStr ''Mock not found'')
             \<and> obj_get fields ''message''
                 = Some (JStr (''No mock available for '' @ req_method req @ '' '' @ req_url req)))
       \<and> backend_log
            (w\<lparr>interceptedRequests := interceptedRequests w + 1,
               task_log := task_log w @
                 [ReadMock_call (generateMockPath config
                    (createRequestSignature pf (req_method req) (req_url req)))]\<rparr>)
           = backend_log w"
proof -
  have "loadMock config (w\<lparr>interceptedRequests := interceptedRequests w + 1\<rparr>)
          (createRequestSignature pf (req_method req) (req_url req))
        = Inr (w\<lparr>interceptedRequests := interceptedRequests w + 1,
                  task_log := task_log w @
                    [ReadMock_call (generateMockPath config
                       (createRequestSignature pf (req_method req) (req_url req)))]\<rparr>, None)"
    using assms(2,3) by (simp add: loadMock_def Let_def)
  then have "setupReplayMode pf config backend responseTime now w req
           = Inr (w\<lparr>interceptedRequests := interceptedRequests w + 1,
                     task_log := task_log w @
                       [ReadMock_call (generateMockPath config
                          (createRequestSignature pf (req_method req) (req_url req)))]\<rparr>,
                  mock_not_found req)"
    using assms(1,4) by (simp add: setupReplayMode_def Let_def)
  then show ?thesis
    by (simp add: mock_not_found_def obj_get_def)
qed

theorem replay_miss_without_fallback_witness:
  "shouldRecordUrl std no_fallback_config (req_url delete_request) = Inr True
   \<and> obj_get (mockCache empty_world)
        (cacheKey_of (createRequestSignature std (req_method delete_request)
                        (req_url delete_request))) = None
   \<and> readMock (files empty_world)
        (generateMockPath no_fallback_config
           (createRequestSignature std (req_method delete_request) (req_url delete_request)))
       = Inr None
   \<and> \<not> autoFallback no_fallback_config
   \<and> setupReplayMode std no_fallback_config ex_backend 0 ex_now empty_world delete_request
       = Inr (missed_world, mock_not_found delete_request)
   \<and> statusCode (mock_not_found delete_request) = 500
   \<and> res_body (mock_not_found delete_request) = JObj
        [(''error'', JStr ''Mock not found''),
         (''message'', JStr ''No mock available for DELETE /posts/1''),
         (''hint'', JStr ''Run tests with MODE=record first, or enable AUTO_FALLBACK'')]
   \<and> backend_log missed_world = []"
proof -
  have h1: "shouldRecordUrl std no_fallback_config (req_url delete_request) = Inr True"
    by code_simp
  have h2: "obj_get (mockCache empty_world)
        (cacheKey_of (createRequestSignature std (req_method delete_request)
                        (req_url delete_request))) = None"
    by (simp add: empty_world_def obj_get_def)
  have h3: "readMock (files empty_world)
        (generateMockPath no_fallback_config
           (createRequestSignature std (req_method delete_request) (req_url delete_request)))
       = Inr None"
    by (simp add: empty_world_def readMock_def obj_get_def)
  have h4: "\<not> autoFallback no_fallback_config"
    by (simp add: no_fallback_config_def)
  have p: "generateMockPath no_fallback_config
             (createRequestSignature std (req_method delete_request) (req_url delete_request))
           = ''cypress/mocks/posts/delete_posts_1.json''"
    by code_simp
  have w: "empty_world\<lparr>interceptedRequests := interceptedRequests empty_world + 1,
             task_log := task_log empty_world @
               [ReadMock_call ''cypress/mocks/posts/delete_posts_1.json'']\<rparr> = missed_world"
    by (simp add: missed_world_def empty_world_def)
  have b: "res_body (mock_not_found delete_request) = JObj
        [(''error'', JStr ''Mock not found''),
         (''message'', JStr ''No mock available for DELETE /posts/1''),
         (''hint'', JStr ''Run tests with MODE=record first, or enable AUTO_FALLBACK'')]"
    by (simp add: mock_not_found_def delete_request_def)
  have l: "backend_log missed_world = []"
    by (simp add: missed_world_def empty_world_def)
  show ?thesis
    using replay_miss_without_fallback [OF h1 h2 h3 h4, of ex_backend 0 ex_now] h1 h2 h3 h4 b l
    unfolding p w by simp
qed

subsection \<open>Recording masks the configured headers\<close>

lemma only_masked_obj_set:
  assumes "only_masked config acc"
      and "sanitized_name config k \<longrightarrow> v = Single REMOVED"
  shows "only_masked config (obj_set acc k v)"
  using assms set_obj_set [of acc k v]
  unfolding only_masked_def list_all_iff by fastforce

lemma sanitizeHeaders_step_only_masked:
  "only_masked config acc \<Longrightarrow> only_masked config (sanitizeHeaders_step config options acc kv)"
  by (simp add: sanitizeHeaders_step_def Let_def only_masked_obj_set sanitized_name_def)

lemma sanitizeHeaders_only_masked:
  "only_masked config (sanitizeHeaders config hs defaultSanitizeOptions)"
proof -
  have "only_masked config (foldl (sanitizeHeaders_step config defaultSanitizeOptions) [] hs)"
  proof (induction hs rule: rev_induct)
    case Nil
    then show ?case by (simp add: only_masked_def)
  next
    case (snoc x xs)
    then show ?case
      by (simp add: sanitizeHeaders_step_only_masked)
  qed
  then show ?thesis
    by (simp add: sanitizeHeaders_def defaultSanitizeOptions_def)
qed

lemma sanitizeHeaders_step_get:
  assumes "opt_maskAuthValues options" and "sanitized_name config k"
  shows "obj_get (sanitizeHeaders_step config options acc kv) k =
           (if fst kv = k then Some (Single REMOVED) else obj_get acc k)"
  using assms by (auto simp: sanitizeHeaders_step_def Let_def obj_get_obj_set sanitized_name_def)

lemma sanitizeHeaders_fold_get:
  assumes "opt_maskAuthValues options" and "sanitized_name config k"
      and "k \<in> fst ` set hs"
  shows "obj_get (foldl (sanitizeHeaders_step config options) acc hs) k = Some (Single REMOVED)"
  using assms(3)
proof (induction hs arbitrary: acc rule: rev_induct)
  case Nil
  then show ?case by simp
next
  case (snoc x xs)
  show ?case
  proof (cases "fst x = k")
    case True
    then show ?thesis
      by (simp add: sanitizeHeaders_step_get [OF assms(1,2)])
  next
    case False
    with snoc.prems have "k \<in> fst ` set xs" by auto
    with snoc.IH False show ?thesis
      by (simp add: sanitizeHeaders_step_get [OF assms(1,2)])
  qed
qed

lemma sanitizeHeaders_masks:
  assumes "sanitized_name config k" and "k \<in> fst ` set hs"
  shows "obj_get (sanitizeHeaders config hs defaultSanitizeOptions) k = Some (Single REMOVED)"
  using sanitizeHeaders_fold_get [OF _ assms, of defaultSanitizeOptions "[]"]
  by (simp add: sanitizeHeaders_def defaultSanitizeOptions_def)

lemma record_mode_result:
  assumes "shouldRecordUrl pf config (req_url req) = Inr True"
  shows "\<exists>w'. setupRecordMode pf config backend responseTime now w req = Inr (w', backend req)
     \<and> obj_get (files w')
          (generateMockPath config (createRequestSignature pf (req_method req) (req_url req)))
        = Some (Stored \<lparr>
            rm_method = toUpperCase (req_method req),
            rm_url = req_url req,
            rm_pathname = extractPathname pf (req_url req),
            rm_queryParams = extractQueryParams pf (req_url req),
            rm_status = statusCode (backend req),
            rm_statusMessage = statusMessage (backend req),
            rm_requestHeaders = Some (sanitizeHeaders config (req_headers req) defaultSanitizeOptions),
            rm_responseHeaders =
              map_option (\<lambda>h. sanitizeHeaders config h defaultSanitizeOptions)
                (res_headers (backend req)),
            rm_requestBody = req_body req,
            rm_response = res_body (backend req),
            rm_responseTime = Some responseTime,
            rm_recordedAt = now,
            rm_version = None,
            rm_metadata = None \<rparr>)"
  using assms
  by (simp add: setupRecordMode_def continue_req_def save_exchange_def saveMock_def Let_def
        writeMock_def obj_get_obj_set createRequestSignature_def)

text \<open>
  Claim C2. In record mode, for a request that passes the record filter, the artifact
  written to the mock directory has the masking sentinel for every request header and
  every response header whose name is in the configured sanitize list, whatever the case
  of the name, and no header of such a name has any other value; the response that
  reaches the test is the one the backend gave.
\<close>

theorem record_mode_masks_headers:
  assumes "shouldRecordUrl pf config (req_url req) = Inr True"
  shows "\<exists>w' m reqh.
           setupRecordMode pf config backend responseTime now w req = Inr (w', backend req)
         \<and> obj_get (files w')
               (generateMockPath config (createRequestSignature pf (req_method req) (req_url req)))
             = Some (Stored m)
         \<and> rm_requestHeaders m = Some reqh
         \<and> only_masked config reqh
         \<and> (\<forall>k. k \<in> fst ` set (req_headers req) \<and> sanitized_name config k
               \<longrightarrow> obj_get reqh k = Some (Single REMOVED))
         \<and> (\<forall>rh. res_headers (backend req) = Some rh \<longrightarrow>
               (\<exists>resh. rm_responseHeaders m = Some resh
                  \<and> only_masked config resh
                  \<and> (\<forall>k. k \<in> fst ` set rh \<and> sanitized_name config k
                        \<longrightarrow> obj_get resh k = Some (Single REMOVED))))"
proof -
  from record_mode_result [OF assms, of backend responseTime now w]
  obtain w' where r: "setupRecordMode pf config backend responseTime now w req = Inr (w', backend req)"
    and f: "obj_get (files w')
          (generateMockPath config (createRequestSignature pf (req_method req) (req_url req)))
        = Some (Stored \<lparr>
            rm_method = toUpperCase (req_method req),
            rm_url = req_url req,
            rm_pathname = extractPathname pf (req_url req),
            rm_queryParams = extractQueryParams pf (req_url req),
            rm_status = statusCode (backend req),
            rm_statusMessage = statusMessage (backend req),
            rm_requestHeaders = Some (sanitizeHeaders config (req_headers req) defaultSanitizeOptions),
            rm_responseHeaders =
              map_option (\<lambda>h. sanitizeHeaders config h defaultSanitizeOptions)
                (res_headers (backend req)),
            rm_requestBody = req_body req,
            rm_response = res_body (backend req),
            rm_responseTime = Some responseTime,
            rm_recordedAt = now,
            rm_version = None,
            rm_metadata = None \<rparr>)"
    by blast
  show ?thesis
    apply (rule exI [of _ w'])
    apply (rule exI)
    apply (rule exI [of _ "sanitizeHeaders config (req_headers req) defaultSanitizeOptions"])
    apply (intro conjI)
         apply (rule r)
        apply (rule f)
       apply simp
      apply (rule sanitizeHeaders_only_masked)
     apply (simp add: sanitizeHeaders_masks)
    apply (simp add: sanitizeHeaders_only_masked sanitizeHeaders_masks)
    done
qed

theorem record_mode_masks_headers_witness:
  "shouldRecordUrl std defaultConfig (req_url users_request) = Inr True
   \<and> sanitized_name defaultConfig ''Authorization''
   \<and> sanitized_name defaultConfig ''Set-Cookie''
   \<and> (\<exists>w' m reqh resh.
         setupRecordMode std defaultConfig ex_backend 12 ex_now empty_world users_request
           = Inr (w', ex_backend users_request)
       \<and> obj_get (files w') ''cypress/mocks/api/users/get_api_users.json'' = Some (Stored m)
       \<and> rm_requestHeaders m = Some reqh
       \<and> obj_get reqh ''Authorization'' = Some (Single ''***REMOVED***'')
       \<and> rm_responseHeaders m = Some resh
       \<and> obj_get resh ''Set-Cookie'' = Some (Single ''***REMOVED***''))
   \<and> res_headers (ex_backend users_request)
       = Some [(''Content-Type'', Single ''application/json''),
               (''Set-Cookie'', Single ''sid=s3cr3t'')]"
proof -
  have h: "shouldRecordUrl std defaultConfig (req_url users_request) = Inr True"
    by code_simp
  have n1: "sanitized_name defaultConfig ''Authorization''"
    and n2: "sanitized_name defaultConfig ''Set-Cookie''"
    by code_simp+
  have p: "generateMockPath defaultConfig
             (createRequestSignature std (req_method users_request) (req_url users_request))
           = ''cypress/mocks/api/users/get_api_users.json''"
    by code_simp
  have k1: "''Authorization'' \<in> fst ` set (req_headers users_request)"
    by (simp add: users_request_def)
  have rh: "res_headers (ex_backend users_request)
       = Some [(''Content-Type'', Single ''application/json''),
               (''Set-Cookie'', Single ''sid=s3cr3t'')]"
    by (simp add: ex_backend_def)
  have k2: "''Set-Cookie'' \<in> fst ` set [(''Content-Type'', Single ''application/json''),
               (''Set-Cookie'', Single ''sid=s3cr3t'')]"
    by simp
  from record_mode_masks_headers [OF h, of ex_backend 12 ex_now empty_world]
  obtain w' m reqh where
    r: "setupRecordMode std defaultConfig ex_backend 12 ex_now empty_world users_request
           = Inr (w', ex_backend users_request)"
    and f: "obj_get (files w') ''cypress/mocks/api/users/get_api_users.json'' = Some (Stored m)"
    and q: "rm_requestHeaders m = Some reqh"
    and a: "obj_get reqh ''Authorization'' = Some (Single REMOVED)"
    and s: "\<exists>resh. rm_responseHeaders m = Some resh
               \<and> obj_get resh ''Set-Cookie'' = Some (Single REMOVED)"
    using n1 n2 k1 k2 rh unfolding p by blast
  then show ?thesis
    using h n1 n2 rh unfolding REMOVED_def by blast
qed



subsection \<open>Recording does not run the whole pipeline\<close>

text \<open>
  Claim C1 asks that what the record path persists has passed through all of
  \<open>sanitizeRecordedData\<close>. The record path calls \<open>sanitizeHeaders\<close> only (lemma
  \<open>record_mode_result\<close>: the persisted URL is \<open>req.url\<close>, the bodies are the bodies of the
  exchange). For a request whose URL carries \<open>token=abc123\<close> the persisted URL still holds
  the token, for an absolute URL and for a relative one, where the pipeline's own
  \<open>sanitizeUrl\<close> would have masked it.
\<close>

theorem record_mode_persists_raw_url:
  "persisted_urls
     (setupRecordMode std defaultConfig ex_backend 12 ex_now empty_world login_request)
     = [''https://example.com/api/login?token=abc123'']
   \<and> persisted_urls
     (setupRecordMode std defaultConfig ex_backend 12 ex_now empty_world login_request_rel)
     = [''/api/login?token=abc123'']
   \<and> rd_url (sanitizeRecordedData std defaultConfig
               (exchange_data login_request_rel (ex_backend login_request_rel))
               defaultSanitizeOptions)
     = ''/api/login?token=***REMOVED***''"
  by code_simp

section \<open>Preloading\<close>

lemma startsWith_drop: "startsWith p q \<Longrightarrow> q @ drop (length q) p = p"
  unfolding startsWith_def by (metis append_take_drop_id)

lemma listed_paths:
  "artifact_path config w p \<longleftrightarrow>
     (\<exists>f \<in> set (listMocks_task (files w) (mockDir config)). p = mockDir config @ ''/'' @ f)"
proof
  assume "artifact_path config w p"
  then have k: "p \<in> set (obj_keys (files w))" and s: "startsWith p (mockDir config @ ''/'')"
    and e: "endsWith p ''.json''"
    by (simp_all add: artifact_path_def)
  from s have "mockDir config @ ''/'' @ drop (length (mockDir config) + 1) p = p"
    using startsWith_drop [of p "mockDir config @ ''/''"] by simp
  moreover have "drop (length (mockDir config) + 1) p \<in> set (listMocks_task (files w) (mockDir config))"
    using k s e by (simp add: listMocks_task_def)
  ultimately show "\<exists>f \<in> set (listMocks_task (files w) (mockDir config)). p = mockDir config @ ''/'' @ f"
    by metis
next
  assume "\<exists>f \<in> set (listMocks_task (files w) (mockDir config)). p = mockDir config @ ''/'' @ f"
  then obtain q where q: "q \<in> set (obj_keys (files w))" "startsWith q (mockDir config @ ''/'')"
      "endsWith q ''.json''" and p: "p = mockDir config @ ''/'' @ drop (length (mockDir config) + 1) q"
    by (auto simp: listMocks_task_def)
  from q(2) have "mockDir config @ ''/'' @ drop (length (mockDir config) + 1) q = q"
    using startsWith_drop [of q "mockDir config @ ''/''"] by simp
  with p q show "artifact_path config w p"
    by (simp add: artifact_path_def)
qed

lemma preload_files_step:
  "preload_files pf config w (f # rest) =
     (case file_at config (files w) f of
        None \<Rightarrow> preload_files pf config
                  (w\<lparr>task_log := task_log w @ [ReadMock_call (mockDir config @ ''/'' @ f)]\<rparr>) rest
      | Some Corrupt \<Rightarrow> Inl SyntaxError
      | Some (Stored m) \<Rightarrow>
          preload_files pf config
            (w\<lparr>task_log := task_log w @ [ReadMock_call (mockDir config @ ''/'' @ f)],
               mockCache := obj_set (mockCache w) (artifact_key pf m) m\<rparr>) rest)"
  by (simp add: readMock_def Let_def file_at_def artifact_key_def
           split: option.splits mock_file.splits)

lemma preload_files_abort:
  "\<exists>f \<in> set listed. file_at config (files w) f = Some Corrupt \<Longrightarrow>
   preload_files pf config w listed = Inl SyntaxError"
proof (induction listed arbitrary: w)
  case Nil
  then show ?case by simp
next
  case (Cons f rest)
  show ?case
  proof (cases "file_at config (files w) f = Some Corrupt")
    case True
    then show ?thesis by (simp add: preload_files_step del: preload_files.simps)
  next
    case False
    with Cons.prems have "\<exists>g \<in> set rest. file_at config (files w) g = Some Corrupt"
      by auto
    then show ?thesis
      by (simp add: preload_files_step Cons.IH del: preload_files.simps split: option.splits mock_file.splits)
  qed
qed

lemma preload_files_succeeds:
  "\<forall>f \<in> set listed. file_at config (files w) f \<noteq> Some Corrupt \<Longrightarrow>
   \<exists>w'. preload_files pf config w listed = Inr w'"
proof (induction listed arbitrary: w)
  case Nil
  then show ?case by simp
next
  case (Cons f rest)
  then show ?case
    by (simp add: preload_files_step del: preload_files.simps split: option.splits mock_file.splits)
qed

lemma preload_files_origin:
  "preload_files pf config w listed = Inr w' \<Longrightarrow>
   obj_get (mockCache w') k = obj_get (mockCache w) k
   \<or> (\<exists>f \<in> set listed. \<exists>m. file_at config (files w) f = Some (Stored m)
          \<and> artifact_key pf m = k \<and> obj_get (mockCache w') k = Some m)"
proof (induction listed arbitrary: w)
  case Nil
  then show ?case by simp
next
  case (Cons f rest)
  show ?case
  proof (cases "file_at config (files w) f")
    case None
    with Cons.prems have "preload_files pf config
        (w\<lparr>task_log := task_log w @ [ReadMock_call (mockDir config @ ''/'' @ f)]\<rparr>) rest = Inr w'"
      by (simp add: preload_files_step del: preload_files.simps)
    from Cons.IH [OF this] show ?thesis by auto
  next
    case (Some c)
    show ?thesis
    proof (cases c)
      case Corrupt
      with Some Cons.prems show ?thesis by (simp add: preload_files_step del: preload_files.simps)
    next
      case (Stored m)
      with Some Cons.prems have "preload_files pf config
            (w\<lparr>task_log := task_log w @ [ReadMock_call (mockDir config @ ''/'' @ f)],
               mockCache := obj_set (mockCache w) (artifact_key pf m) m\<rparr>) rest = Inr w'"
        by (simp add: preload_files_step del: preload_files.simps)
      from Cons.IH [OF this]
      have "obj_get (mockCache w') k
              = (if k = artifact_key pf m then Some m else obj_get (mockCache w) k)
            \<or> (\<exists>g \<in> set rest. \<exists>m'. file_at config (files w) g = Some (Stored m')
                  \<and> artifact_key pf m' = k \<and> obj_get (mockCache w') k = Some m')"
        by (simp add: obj_get_obj_set)
      then show ?thesis
      proof
        assume e: "obj_get (mockCache w') k
              = (if k = artifact_key pf m then Some m else obj_get (mockCache w) k)"
        show ?thesis
        proof (cases "k = artifact_key pf m")
          case True
          with e Some Stored show ?thesis by auto
        next
          case False
          with e show ?thesis by simp
        qed
      next
        assume "\<exists>g \<in> set rest. \<exists>m'. file_at config (files w) g = Some (Stored m')
                  \<and> artifact_key pf m' = k \<and> obj_get (mockCache w') k = Some m'"
        then show ?thesis by auto
      qed
    qed
  qed
qed


lemma preload_files_present:
  "preload_files pf config w listed = Inr w' \<Longrightarrow> f \<in> set listed \<Longrightarrow>
   file_at config (files w) f = Some (Stored m) \<Longrightarrow>
   \<exists>f' \<in> set listed. \<exists>m'. file_at config (files w) f' = Some (Stored m')
      \<and> artifact_key pf m' = artifact_key pf m
      \<and> obj_get (mockCache w') (artifact_key pf m) = Some m'"
proof (induction listed arbitrary: w)
  case Nil
  then show ?case by simp
next
  case (Cons g rest)
  let ?w1 = "w\<lparr>task_log := task_log w @ [ReadMock_call (mockDir config @ ''/'' @ g)]\<rparr>"
  show ?case
  proof (cases "f \<in> set rest")
    case True
    have "\<exists>w2. preload_files pf config w2 rest = Inr w' \<and> files w2 = files w"
      using Cons.prems(1)
      by (auto simp add: preload_files_step simp del: preload_files.simps
               split: option.splits mock_file.splits)
    then obtain w2 where r: "preload_files pf config w2 rest = Inr w'" and fl: "files w2 = files w"
      by blast
    from Cons.IH [OF r True] Cons.prems(3) fl show ?thesis by auto
  next
    case False
    with Cons.prems(2) have "g = f" by simp
    let ?w2 = "?w1\<lparr>mockCache := obj_set (mockCache w) (artifact_key pf m) m\<rparr>"
    have r: "preload_files pf config ?w2 rest = Inr w'"
      using Cons.prems(1,3) \<open>g = f\<close>
      by (simp add: preload_files_step del: preload_files.simps)
    from preload_files_origin [OF r, of "artifact_key pf m"]
    have "obj_get (mockCache w') (artifact_key pf m) = Some m
          \<or> (\<exists>h \<in> set rest. \<exists>m'. file_at config (files w) h = Some (Stored m')
                \<and> artifact_key pf m' = artifact_key pf m
                \<and> obj_get (mockCache w') (artifact_key pf m) = Some m')"
      by (simp add: obj_get_obj_set)
    then show ?thesis
    proof
      assume "obj_get (mockCache w') (artifact_key pf m) = Some m"
      with Cons.prems(3) \<open>g = f\<close> show ?thesis by auto
    next
      assume "\<exists>h \<in> set rest. \<exists>m'. file_at config (files w) h = Some (Stored m')
                \<and> artifact_key pf m' = artifact_key pf m
                \<and> obj_get (mockCache w') (artifact_key pf m) = Some m'"
      then show ?thesis by auto
    qed
  qed
qed

text \<open>
  When every listed file holds an artifact, \<open>preloadMocks\<close> returns the size of the cache,
  and the cache holds, under the key of each stored artifact, a stored artifact of that
  key.
\<close>

lemma preloadMocks_loads_artifacts:
  assumes ok: "\<forall>p. artifact_path config w p \<longrightarrow> (\<exists>m. obj_get (files w) p = Some (Stored m))"
  shows "\<exists>w'. preloadMocks pf config w = Inr (w', length (mockCache w'))
         \<and> (\<forall>p m. artifact_path config w p \<and> obj_get (files w) p = Some (Stored m) \<longrightarrow>
               (\<exists>p' m'. artifact_path config w p' \<and> obj_get (files w) p' = Some (Stored m')
                  \<and> artifact_key pf m' = artifact_key pf m
                  \<and> obj_get (mockCache w') (artifact_key pf m) = Some m'))"
proof -
  let ?listed = "listMocks_task (files w) (mockDir config)"
  let ?w0 = "w\<lparr>task_log := task_log w @ [ListMocks_call (mockDir config)]\<rparr>"
  have "\<forall>f \<in> set ?listed. file_at config (files ?w0) f \<noteq> Some Corrupt"
  proof
    fix f assume "f \<in> set ?listed"
    then have "artifact_path config w (mockDir config @ ''/'' @ f)"
      using listed_paths [of config w] by blast
    with ok obtain m where "obj_get (files w) (mockDir config @ ''/'' @ f) = Some (Stored m)"
      by blast
    then show "file_at config (files ?w0) f \<noteq> Some Corrupt"
      by (simp add: file_at_def)
  qed
  from preload_files_succeeds [OF this, of pf]
  obtain w' where r: "preload_files pf config ?w0 ?listed = Inr w'"
    by blast
  have res: "preloadMocks pf config w = Inr (w', length (mockCache w'))"
    using r by (simp add: preloadMocks_def Let_def)
  have "\<forall>p m. artifact_path config w p \<and> obj_get (files w) p = Some (Stored m) \<longrightarrow>
               (\<exists>p' m'. artifact_path config w p' \<and> obj_get (files w) p' = Some (Stored m')
                  \<and> artifact_key pf m' = artifact_key pf m
                  \<and> obj_get (mockCache w') (artifact_key pf m) = Some m')"
  proof (intro allI impI)
    fix p m
    assume pm: "artifact_path config w p \<and> obj_get (files w) p = Some (Stored m)"
    then obtain f where f: "f \<in> set ?listed" and p: "p = mockDir config @ ''/'' @ f"
      using listed_paths [of config w p] by blast
    from pm p have "file_at config (files ?w0) f = Some (Stored m)"
      by (simp add: file_at_def)
    from preload_files_present [OF r f this]
    obtain f' m' where f': "f' \<in> set ?listed"
      and s: "file_at config (files ?w0) f' = Some (Stored m')"
      and k: "artifact_key pf m' = artifact_key pf m"
      and c: "obj_get (mockCache w') (artifact_key pf m) = Some m'"
      by blast
    from f' have "artifact_path config w (mockDir config @ ''/'' @ f')"
      using listed_paths [of config w] by blast
    moreover from s have "obj_get (files w) (mockDir config @ ''/'' @ f') = Some (Stored m')"
      by (simp add: file_at_def)
    ultimately show "\<exists>p' m'. artifact_path config w p' \<and> obj_get (files w) p' = Some (Stored m')
                  \<and> artifact_key pf m' = artifact_key pf m
                  \<and> obj_get (mockCache w') (artifact_key pf m) = Some m'"
      using k c by blast
  qed
  with res show ?thesis
    by blast
qed

text \<open>
  A corrupt file anywhere in the mock directory is not skipped: \<open>readMock\<close> throws on it,
  nothing on the way catches, and the preload fails with that error.
\<close>

lemma preloadMocks_aborts:
  assumes a: "artifact_path config w p" and c: "obj_get (files w) p = Some Corrupt"
  shows "preloadMocks pf config w = Inl SyntaxError"
proof -
  let ?listed = "listMocks_task (files w) (mockDir config)"
  let ?w0 = "w\<lparr>task_log := task_log w @ [ListMocks_call (mockDir config)]\<rparr>"
  from a obtain f where f: "f \<in> set ?listed" and p: "p = mockDir config @ ''/'' @ f"
    using listed_paths [of config w p] by blast
  with c have "\<exists>f \<in> set ?listed. file_at config (files ?w0) f = Some Corrupt"
    by (auto simp: file_at_def)
  from preload_files_abort [OF this, of pf]
  show ?thesis
    by (simp add: preloadMocks_def Let_def)
qed

text \<open>
  Claim C8. With the artifact of \<open>GET /posts\<close> alone in the mock directory, \<open>preloadMocks\<close>
  loads it and returns 1. With a second file beside it whose text is not JSON, the task
  \<open>readMock\<close> throws at that file and \<open>preloadMocks\<close> fails with the error: the corrupt
  file is not skipped, and the preload does not return a count.
\<close>

theorem preloadMocks_corrupt_file_aborts:
  "files stored_world = [(''cypress/mocks/posts/get_posts.json'', Stored ex_artifact)]
   \<and> preloadMocks std defaultConfig stored_world
       = Inr (stored_world\<lparr>
                mockCache := [(''GET:/posts'', ex_artifact)],
                task_log := [ListMocks_call ''cypress/mocks'',
                             ReadMock_call ''cypress/mocks/posts/get_posts.json'']\<rparr>, 1)
   \<and> files corrupt_world = [(''cypress/mocks/posts/get_posts.json'', Stored ex_artifact),
                            (''cypress/mocks/users/get_users.json'', Corrupt)]
   \<and> listMocks_task (files corrupt_world) (mockDir defaultConfig)
       = [''posts/get_posts.json'', ''users/get_users.json'']
   \<and> readMock (files corrupt_world) ''cypress/mocks/users/get_users.json'' = Inl SyntaxError
   \<and> preloadMocks std defaultConfig corrupt_world = Inl SyntaxError"
  by code_simp


section \<open>Properties of the dynamic placeholders\<close>

lemma foldl_obj_set_map:
  "distinct (map fst kvs) \<Longrightarrow> fst ` set acc \<inter> fst ` set kvs = {} \<Longrightarrow>
   foldl (\<lambda>result kv. obj_set result (fst kv) (g kv)) acc kvs
     = acc @ map (\<lambda>kv. (fst kv, g kv)) kvs"
proof (induction kvs arbitrary: acc)
  case Nil
  then show ?case by simp
next
  case (Cons e es)
  from Cons.prems have fresh: "fst e \<notin> fst ` set acc" by auto
  have "fst ` set (acc @ [(fst e, g e)]) \<inter> fst ` set es = {}"
    using Cons.prems by auto
  with Cons.IH [of "acc @ [(fst e, g e)]"] Cons.prems(1) fresh show ?case
    by (simp add: obj_set_fresh)
qed

lemma apply_JObj:
  "distinct (map fst kvs) \<Longrightarrow>
   applyDynamicPlaceholders config (JObj kvs) patterns
     = JObj (map (\<lambda>kv. (fst kv, apply_field config patterns kv)) kvs)"
proof -
  assume d: "distinct (map fst kvs)"
  have "(\<lambda>result kv.
             (case find (\<lambda>p. fst p = fst kv) patterns of
                None \<Rightarrow>
                  obj_set result (fst kv) (applyDynamicPlaceholders config (snd kv) patterns)
              | Some matchingPattern \<Rightarrow>
                  if snd kv = JStr (snd matchingPattern)
                  then obj_set result (fst kv) (JStr (dynamicPlaceholder config))
                  else obj_set result (fst kv)
                         (applyDynamicPlaceholders config (snd kv) patterns)))
        = (\<lambda>result kv. obj_set result (fst kv) (apply_field config patterns kv))"
    by (intro ext) (simp add: apply_field_def split: option.splits)
  then show ?thesis
    using foldl_obj_set_map [OF d, of "[]" "apply_field config patterns"] by simp
qed

lemma resolve_JObj:
  "distinct (map fst kvs) \<Longrightarrow>
   resolveDynamicPlaceholders config (JObj kvs) values
     = JObj (map (\<lambda>kv. (fst kv, resolve_field config values kv)) kvs)"
proof -
  assume d: "distinct (map fst kvs)"
  have "(\<lambda>result kv.
             (case obj_get values (fst kv) of
                Some v \<Rightarrow>
                  if snd kv = JStr (dynamicPlaceholder config)
                  then obj_set result (fst kv) v
                  else obj_set result (fst kv)
                         (resolveDynamicPlaceholders config (snd kv) values)
              | None \<Rightarrow>
                  obj_set result (fst kv)
                    (resolveDynamicPlaceholders config (snd kv) values)))
        = (\<lambda>result kv. obj_set result (fst kv) (resolve_field config values kv))"
    by (intro ext) (simp add: resolve_field_def split: option.splits)
  then show ?thesis
    using foldl_obj_set_map [OF d, of "[]" "resolve_field config values"] by simp
qed

lemma apply_plain_string:
  "list_all (\<lambda>p. \<not> str_includes s (snd p)) patterns \<Longrightarrow>
   foldl (\<lambda>result p. if str_includes s (snd p)
                       then replace_all result (snd p) (placeholder_token (fst p))
                       else result) r patterns = r"
  by (induction patterns arbitrary: r) auto

lemma replace_first_absent: "\<not> str_includes s pat \<Longrightarrow> replace_first s pat repl = s"
  by (cases "find_sub pat s") (simp_all add: replace_first_def str_includes_def)

lemma resolve_plain_string:
  "list_all (\<lambda>kv. \<not> str_includes s (placeholder_token (fst kv))) values \<Longrightarrow>
   foldl (\<lambda>result kv. replace_first result (placeholder_token (fst kv)) (js_String (snd kv)))
         s values = s"
  by (induction "values") (simp_all add: replace_first_absent)

lemma round_trip_string:
  "plain_string config patterns values s \<Longrightarrow>
   resolveDynamicPlaceholders config (applyDynamicPlaceholders config (JStr s) patterns) values
     = JStr s"
proof -
  assume p: "plain_string config patterns values s"
  then have n: "s \<noteq> dynamicPlaceholder config"
    and a: "list_all (\<lambda>p. \<not> str_includes s (snd p)) patterns"
    and r: "list_all (\<lambda>kv. \<not> str_includes s (placeholder_token (fst kv))) values"
    by (simp_all add: plain_string_def)
  have ap: "applyDynamicPlaceholders config (JStr s) patterns = JStr s"
    using apply_plain_string [OF a, of s] by simp
  show ?thesis
    unfolding ap using resolve_plain_string [OF r] n by simp
qed

lemma untracked_not_sentinel:
  "untracked config patterns values d \<Longrightarrow>
   applyDynamicPlaceholders config d patterns \<noteq> JStr (dynamicPlaceholder config)"
proof (cases d)
  case (JStr s)
  assume "untracked config patterns values d"
  with JStr have n: "s \<noteq> dynamicPlaceholder config"
    and a: "list_all (\<lambda>p. \<not> str_includes s (snd p)) patterns"
    by (simp_all add: plain_string_def)
  show ?thesis
    using apply_plain_string [OF a, of s] n JStr by simp
qed simp_all

text \<open>
  The object fields are a symmetric pair. When the value map has every pattern's value
  under its field, and no string of the data (outside the object fields that are a
  tracked value under their own name) is the sentinel or contains a tracked value or a
  token of the value map, resolving after applying gives the data back: each such field
  is replaced by the sentinel and restored from the value map.
\<close>

theorem placeholders_round_trip:
  assumes b: "value_map_binds patterns values"
      and u: "untracked config patterns values d"
  shows "resolveDynamicPlaceholders config (applyDynamicPlaceholders config d patterns) values = d"
  using u
proof (induction d)
  case (JStr s)
  then have "plain_string config patterns values s" by simp
  then show ?case by (rule round_trip_string)
next
  case (JArr items)
  then show ?case
    by (simp add: list_all_iff map_idI)
next
  case (JObj kvs)
  from JObj.prems have d: "distinct (map fst kvs)"
    and each: "\<forall>kv \<in> set kvs.
            (case find (\<lambda>p. fst p = fst kv) patterns of
               None \<Rightarrow> untracked config patterns values (snd kv)
             | Some matchingPattern \<Rightarrow>
                 snd kv = JStr (snd matchingPattern)
                 \<or> untracked config patterns values (snd kv))"
    by (simp_all add: list_all_iff)
  have d': "distinct (map fst (map (\<lambda>kv. (fst kv, apply_field config patterns kv)) kvs))"
    using d by (simp add: comp_def)
  have field: "resolve_field config values (fst kv, apply_field config patterns kv) = snd kv"
    if kv: "kv \<in> set kvs" for kv
  proof -
    have ih: "untracked config patterns values (snd kv) \<Longrightarrow>
          resolveDynamicPlaceholders config (applyDynamicPlaceholders config (snd kv) patterns) values
            = snd kv"
      using JObj.IH [of kv "snd kv"] kv by (cases kv) auto
    show ?thesis
    proof (cases "find (\<lambda>p. fst p = fst kv) patterns")
      case None
      with each kv have un: "untracked config patterns values (snd kv)" by force
      with None show ?thesis
        using ih untracked_not_sentinel [OF un]
        by (simp add: apply_field_def resolve_field_def split: option.splits)
    next
      case (Some mp)
      then have mp: "mp \<in> set patterns" and f: "fst mp = fst kv"
        by (auto simp: find_Some_iff in_set_conv_nth)
      show ?thesis
      proof (cases "snd kv = JStr (snd mp)")
        case True
        from b mp f have "obj_get values (fst kv) = Some (JStr (snd mp))"
          by (auto simp: value_map_binds_def list_all_iff)
        with Some True show ?thesis
          by (simp add: apply_field_def resolve_field_def)
      next
        case False
        with each kv Some have un: "untracked config patterns values (snd kv)" by force
        with Some False show ?thesis
          using ih untracked_not_sentinel [OF un]
          by (simp add: apply_field_def resolve_field_def split: option.splits)
      qed
    qed
  qed
  have inv: "map (\<lambda>kv. (fst kv, resolve_field config values kv))
            (map (\<lambda>kv. (fst kv, apply_field config patterns kv)) kvs) = kvs"
    using field by (simp add: comp_def map_idI)
  show ?case
    unfolding apply_JObj [OF d] resolve_JObj [OF d'] inv ..
qed simp_all


theorem placeholders_round_trip_witness:
  "value_map_binds ex_patterns ex_values
   \<and> untracked defaultConfig ex_patterns ex_values ex_post
   \<and> applyDynamicPlaceholders defaultConfig ex_post ex_patterns
       = JObj [(''id'', JStr ''{{DYNAMIC}}''), (''title'', JStr ''hello''),
               (''tags'', JArr [JStr ''a'', JNum 7])]
   \<and> resolveDynamicPlaceholders defaultConfig
         (applyDynamicPlaceholders defaultConfig ex_post ex_patterns) ex_values = ex_post"
proof -
  have b: "value_map_binds ex_patterns ex_values"
    and u: "untracked defaultConfig ex_patterns ex_values ex_post"
    by code_simp+
  have a: "applyDynamicPlaceholders defaultConfig ex_post ex_patterns
       = JObj [(''id'', JStr ''{{DYNAMIC}}''), (''title'', JStr ''hello''),
               (''tags'', JArr [JStr ''a'', JNum 7])]"
    by code_simp
  show ?thesis
    using placeholders_round_trip [OF b u] b u a by simp
qed

text \<open>
  The tokens and the sentinel are ordinary strings: a token that was in the data to begin
  with is substituted as well, and a string that is the sentinel resolves to the
  \<open>_default\<close> entry of the value map.
\<close>

lemma placeholders_in_the_data:
  "resolveDynamicPlaceholders defaultConfig
         (applyDynamicPlaceholders defaultConfig (JStr ''see {{id}}'') ex_patterns) ex_values
       = JStr ''see 42''
   \<and> resolveDynamicPlaceholders defaultConfig
         (applyDynamicPlaceholders defaultConfig (JStr ''{{DYNAMIC}}'') ex_patterns)
         (ex_values @ [(''_default'', JStr ''x'')])
       = JStr ''x''"
  by code_simp

text \<open>
  Claim C9. With the pattern \<open>{field: id, value: 42}\<close> and the value map \<open>{id: 42}\<close>, which
  binds the field to the tracked value, applying replaces the field \<open>id\<close> by the sentinel
  and every occurrence of \<open>42\<close> in the text of \<open>msg\<close> by the token \<open>{{id}}\<close> (a global
  replacement). Resolving restores the field, and in the text it substitutes the first
  token only (\<open>replace\<close> with a string pattern), so the second token stays and the result
  is not the data. A text with a single occurrence comes back as it was.
\<close>

theorem placeholders_not_symmetric:
  "value_map_binds ex_patterns ex_values
   \<and> applyDynamicPlaceholders defaultConfig
        (JObj [(''id'', JStr ''42''), (''msg'', JStr ''id 42, ref 42'')]) ex_patterns
       = JObj [(''id'', JStr ''{{DYNAMIC}}''), (''msg'', JStr ''id {{id}}, ref {{id}}'')]
   \<and> resolveDynamicPlaceholders defaultConfig
         (applyDynamicPlaceholders defaultConfig
            (JObj [(''id'', JStr ''42''), (''msg'', JStr ''id 42, ref 42'')]) ex_patterns)
         ex_values
       = JObj [(''id'', JStr ''42''), (''msg'', JStr ''id 42, ref {{id}}'')]
   \<and> resolveDynamicPlaceholders defaultConfig
         (applyDynamicPlaceholders defaultConfig
            (JObj [(''id'', JStr ''42''), (''msg'', JStr ''id 42'')]) ex_patterns)
         ex_values
       = JObj [(''id'', JStr ''42''), (''msg'', JStr ''id 42'')]"
  by code_simp


end
